theory Spec2Isabelle
  imports Complex_Main "HOL-Library.Word" "HOL-Library.Signed_Division"
begin

unbundle bit_operations_syntax

section \<open>Machine integers, byte strings and results\<close>

text \<open>
  The tunnel's counters are Go \<open>uint64\<close>, \<open>uint32\<close>, \<open>uint16\<close>, \<open>int64\<close> and \<open>int32\<close>
  values. All of them are words here: addition and subtraction wrap around as in Go, the
  unsigned ones are compared with \<open><\<close>, the signed ones with \<open><s\<close> and \<open>\<le>s\<close>.
  \<open>*big.Int\<close> values are \<open>int\<close>. A \<open>time.Time\<close> is an \<open>int\<close>, the number of nanoseconds
  since Go's zero instant, so \<open>IsZero\<close> is \<open>= 0\<close>.
\<close>

type_synonym u16 = "16 word"
type_synonym u32 = "32 word"
type_synonym u64 = "64 word"
type_synonym i32 = "32 word"
type_synonym i64 = "64 word"
type_synonym bytes = "8 word list"
type_synonym time = int

text \<open>Go's \<open>/\<close> on \<open>int64\<close> truncates towards zero.\<close>

definition i64_quo :: "i64 \<Rightarrow> i64 \<Rightarrow> i64" where
  "i64_quo a b = word_of_int (sint a sdiv sint b)"

text \<open>A call either returns or panics.\<close>

datatype 'a go_result = Return 'a | Panic string

section \<open>Tunnel states\<close>

text \<open>
  The constant block starts with \<open>StateTypeDestroyed = math.MaxUint32\<close>, so \<open>iota\<close> is
  already 1 on the line of \<open>StateTypeConfiguring\<close>.
\<close>

definition StateTypeDestroyed :: u32 where "StateTypeDestroyed = 0xFFFFFFFF"
definition StateTypeConfiguring :: u32 where "StateTypeConfiguring = 1"
definition StateTypeOptimizingRoutes :: u32 where "StateTypeOptimizingRoutes = 2"
definition StateTypeOptimized :: u32 where "StateTypeOptimized = 3"

section \<open>Data model\<close>

text \<open>
  \<open>EncryptionKeys\<close>, the messages and the payloads are declared in files of the package
  that are not part of the sources at hand; their fields are the ones the tunnel reads and
  writes. \<open>EncryptedMessage.Instructions\<close> is a byte slice (the tunnel copies it with
  \<open>append([]byte{}, msg.Instructions...)\<close>).
\<close>

record EncryptionKeys =
  ReceiverPubKey :: bytes
  SectionPubKey :: bytes
  CipherKey :: bytes
  CipherKeyCRC :: bytes

record EncryptedMessage =
  em_SectionPubKey :: bytes
  em_Instructions :: bytes
  em_Payload :: bytes

record EncryptedMessageCached =
  emc_SectionPubKey :: bytes
  emc_Seqno :: u32
  emc_Payload :: bytes

datatype custom_message = Message EncryptedMessage | MessageCached EncryptedMessageCached

record SendOutPayload =
  so_Seqno :: u64
  so_IP :: bytes
  so_Port :: u32
  so_Payload :: bytes

record DeliverUDPPayload =
  du_Seqno :: u64
  du_IP :: bytes
  du_Port :: u32
  du_Payload :: bytes

record OutBindDonePayload =
  ob_Seqno :: u64
  ob_IP :: bytes
  ob_Port :: u32

text \<open>What \<open>decryptRecvPayload\<close> can hand to \<open>Process\<close>, and the metadata of a delivery.\<close>

datatype payload_data =
  DeliverUDP DeliverUDPPayload
| OutBindDone OutBindDonePayload
| OtherPayload

datatype meta = StateMeta u32 | PingMeta u64 bool | OtherMeta

text \<open>A \<open>net.Addr\<close>: a \<open>*net.UDPAddr\<close> (possibly a nil pointer) or some other implementation.\<close>

datatype net_addr = UDPAddr bytes int | NilUDPAddr | OtherAddr

record PaymentInstruction =
  pi_Key :: bytes
  pi_PaymentChannelState :: bytes
  pi_Final :: bool
  pi_Purpose :: u64

record BindOut =
  InboundNodeADNL :: bytes
  InboundSectionPubKey :: bytes
  InboundInstructions :: bytes
  bo_ReceiverPubKey :: bytes
  bo_PricePerPacket :: u64

text \<open>The instructions a container can list (a closed sum in place of \<open>tl.Serializable\<close>).\<close>

datatype instruction =
  BuildRouteInstruction bytes bytes u32 u64
| CacheInstruction u64 "instruction list"
| RouteInstruction u32
| BindOutInstruction BindOut
| PaymentInstr PaymentInstruction
| DeliverInitiatorInstruction u32 meta
| SendOutInstruction
| DestroyInstruction

record VirtualPaymentChannel =
  vc_Key :: bytes
  LastAmount :: int
  Capacity :: int
  SafeDeadline :: time

text \<open>
  \<open>PercentFee\<close> is a \<open>*big.Float\<close>; its value is a rational number. The arithmetic done
  with it is a parameter of the chain builder below.
\<close>

record PaymentTunnelSection =
  pts_Key :: bytes
  MinFee :: int
  PercentFee :: rat
  MaxCapacity :: int

record Payer =
  PaymentTunnel :: "PaymentTunnelSection list"
  PricePerPacket :: u64
  PaidPackets :: i64
  CurrentChannel :: "VirtualPaymentChannel option"
  PaidChannelFee :: "int option"
  LatestChannelDeadline :: time
  LatestPaidOnSeqno :: u64
  LatestInstruction :: "PaymentInstruction option"
  LatestPacketsPaid :: i64

record SectionInfo =
  Keys :: EncryptionKeys
  PaymentInfo :: "Payer option"

text \<open>
  The tunnel. The first group of fields are those of the Go struct. \<open>sendControlSignal\<close> is
  a channel of capacity 1 that only ever carries \<open>struct{}{}\<close>: it is full or empty.
  \<open>read\<close> is a channel of capacity \<open>512 * 1024\<close>, the queue of its pending elements, oldest
  first. \<open>onOutAddressChanged\<close> says whether a handler is installed. The last group
  records what the tunnel did to the outside: the messages its peer accepted, the calls of the
  address handler (with the \<open>net.UDPAddr\<close> it got), whether \<open>close\<close> was called, and the
  warnings logged.
\<close>

record RegularOutTunnel =
  localID :: u32
  usePayments :: bool
  paymentsConfirmed :: i32
  wantDestroy :: i32
  tunnelState :: u32
  sendControlSignal :: bool
  externalAddr :: bytes
  externalPort :: u16
  onOutAddressChanged :: bool
  chainTo :: "SectionInfo list"
  chainFrom :: "SectionInfo list"
  payloadKeys :: EncryptionKeys
  read :: "DeliverUDPPayload list"
  seqnoSend :: u64
  seqnoRecv :: u64
  packetsRecv :: u64
  packetsRecvPaidConsumed :: u64
  packetsDropped :: u64
  packetsSent :: u64
  controlSeqno :: u64
  controlSeqnoReceived :: u64
  controlPaidSeqnoReceived :: u64
  packetsToPrepay :: i64
  packetsConsumedIn :: i64
  packetsConsumedOut :: i64
  packetsMinPaidIn :: i64
  packetsMinPaidOut :: i64
  lastFullyCheckedAt :: i64
  seqnoForward :: u32
  peerSent :: "custom_message list"
  handlerCalls :: "(bytes \<times> int) list"
  closed :: bool
  warnings :: "string list"

definition readCapacity :: nat where "readCapacity = 512 * 1024"

section \<open>Collaborators\<close>

text \<open>
  The transport peer, the TL codec and the payload cipher are outside the tunnel. A call of
  the tunnel is run against one answer of each of them: \<open>None\<close> from \<open>Serialize\<close>,
  \<open>EncryptPayload\<close> and \<open>decryptRecvPayload\<close> (both methods of the payload keys) is their
  error; \<open>SendCustomMessage\<close> returns its error, if any. \<open>assembleInit st\<close> is the layered init message that \<open>prepareInitMessage\<close>
  builds for state \<open>st\<close> out of the sections' \<open>EncryptInstructionsMessage\<close>, or \<open>None\<close> when
  one of these encryptions fails. \<open>EncryptInstructionsMessage k msg ins\<close> is the message
  after section keys \<open>k\<close> wrapped the instructions \<open>ins\<close> around \<open>msg\<close>;
  \<open>decryptStream crc key data\<close> is the stream cipher; \<open>tlParse data\<close> is
  \<open>tl.Parse(container, data, true)\<close>: the container's list and the bytes left over.
\<close>

datatype send_error = ErrNotConnected | ErrOther

record collaborators =
  Serialize :: "SendOutPayload \<Rightarrow> bytes option"
  EncryptPayload :: "EncryptionKeys \<Rightarrow> bytes \<Rightarrow> bytes option"
  SendCustomMessage :: "custom_message \<Rightarrow> send_error option"
  decryptRecvPayload :: "EncryptionKeys \<Rightarrow> bytes \<Rightarrow> payload_data option"
  assembleInit :: "u32 \<Rightarrow> EncryptedMessage option"
  EncryptInstructionsMessage ::
    "EncryptionKeys \<Rightarrow> EncryptedMessage \<Rightarrow> instruction list \<Rightarrow> EncryptedMessage option"
  decryptStream :: "bytes \<Rightarrow> bytes \<Rightarrow> bytes \<Rightarrow> bytes option"
  tlParse :: "bytes \<Rightarrow> (instruction list \<times> bytes) option"

section \<open>The endpoint: requestControlMessage and WriteTo\<close>

text \<open>A non-blocking send on the signal channel: it fills the channel, or does nothing.\<close>

definition requestControlMessage :: "RegularOutTunnel \<Rightarrow> RegularOutTunnel" where
  "requestControlMessage t = t\<lparr>sendControlSignal := True\<rparr>"

datatype write_error =
  NotReady
| Destroyed
| PrepaidExhausted i64 i64
| InvalidAddressType
| SerializationError
| EncryptPayloadError
| SendMessageError send_error

text \<open>
  The payment gate of \<open>WriteTo\<close> (the block under \<open>if t.usePayments\<close>): the error, or the
  tunnel with \<open>packetsConsumedOut\<close> bumped and the control loop woken when the headroom is
  below half of \<open>packetsToPrepay\<close>.
\<close>

definition writePaymentGate :: "RegularOutTunnel \<Rightarrow> write_error + RegularOutTunnel" where
  "writePaymentGate t =
     (if usePayments t then
        (let paid = packetsMinPaidOut t; consumed = packetsConsumedOut t in
         if paid <s consumed then Inl (PrepaidExhausted paid consumed)
         else
           (let t1 = t\<lparr>packetsConsumedOut := consumed + 1\<rparr> in
            if paid - packetsConsumedOut t1 <s i64_quo (packetsToPrepay t1) 2
            then Inr (requestControlMessage t1) else Inr t1))
      else Inr t)"

text \<open>
  The rest of \<open>WriteTo\<close>, from the type assertion on the address. \<open>seqnoSend\<close> is bumped
  when the payload is built, \<open>seqnoForward\<close> when the message is built (before it is sent),
  \<open>packetsSent\<close> after the peer took it.
\<close>

definition writeSend ::
  "collaborators \<Rightarrow> RegularOutTunnel \<Rightarrow> bytes \<Rightarrow> net_addr
     \<Rightarrow> (int \<times> write_error option) go_result \<times> RegularOutTunnel" where
  "writeSend c t p addr =
     (case addr of
        OtherAddr \<Rightarrow> (Return (-1, Some InvalidAddressType), t)
      | NilUDPAddr \<Rightarrow> (Panic ''nil pointer dereference'', t)
      | UDPAddr ip port \<Rightarrow>
          (let t2 = t\<lparr>seqnoSend := seqnoSend t + 1\<rparr>;
               pl = \<lparr>so_Seqno = seqnoSend t2, so_IP = ip, so_Port = word_of_int port,
                      so_Payload = p\<rparr>
           in case Serialize c pl of
                None \<Rightarrow> (Return (-1, Some SerializationError), t2)
              | Some ser \<Rightarrow>
                  (case EncryptPayload c (payloadKeys t2) ser of
                     None \<Rightarrow> (Return (-1, Some EncryptPayloadError), t2)
                   | Some enc \<Rightarrow>
                       (case chainTo t2 of
                          [] \<Rightarrow> (Panic ''index out of range'', t2)
                        | s0 # _ \<Rightarrow>
                            (let t3 = t2\<lparr>seqnoForward := seqnoForward t2 + 1\<rparr>;
                                 m = MessageCached
                                       \<lparr>emc_SectionPubKey = SectionPubKey (Keys s0),
                                        emc_Seqno = seqnoForward t3, emc_Payload = enc\<rparr>
                             in case SendCustomMessage c m of
                                  Some e \<Rightarrow> (Return (-1, Some (SendMessageError e)), t3)
                                | None \<Rightarrow>
                                    (Return (int (length p), None),
                                     t3\<lparr>packetsSent := packetsSent t3 + 1,
                                        peerSent := peerSent t3 @ [m]\<rparr>))))))"

definition WriteTo ::
  "collaborators \<Rightarrow> RegularOutTunnel \<Rightarrow> bytes \<Rightarrow> net_addr
     \<Rightarrow> (int \<times> write_error option) go_result \<times> RegularOutTunnel" where
  "WriteTo c t p addr =
     (if length p = 0 then (Return (0, None), t)
      else if tunnelState t < StateTypeOptimized then (Return (-1, Some NotReady), t)
      else if wantDestroy t \<noteq> 0 then (Return (-1, Some Destroyed), t)
      else
        (case writePaymentGate t of
           Inl e \<Rightarrow> (Return (-1, Some e), t)
         | Inr t1 \<Rightarrow> writeSend c t1 p addr))"

section \<open>Inbound dispatch: Process\<close>

text \<open>
  One call of \<open>Process\<close> is run on its own, so every atomic load sees the value the call
  itself stored last. A compare-and-swap returns whether it swapped and the new value.
\<close>

definition CompareAndSwap :: "'a \<Rightarrow> 'a \<Rightarrow> 'a \<Rightarrow> bool \<times> 'a" where
  "CompareAndSwap cur old new = (if cur = old then (True, new) else (False, cur))"

datatype process_error =
  DecryptRecvPayloadFailed
| PrepareOptimizedFailed
| PrepareInitFailed
| SendInitFailed send_error
| UnknownTunnelState u32
| InvalidIPLen nat
| InvalidPort u32
| ReadChannelFull
| IncorrectPayloadType
| UnknownMetaType

text \<open>
  \<open>prepareInitMessage\<close>: the layered message is put together by the sections' encryption
  alone (the collaborators' \<open>assembleInit\<close>); when that succeeds the tunnel state is stored,
  when it fails nothing of the tunnel has changed.
\<close>

definition prepareInitMessage ::
  "collaborators \<Rightarrow> RegularOutTunnel \<Rightarrow> u32 \<Rightarrow> (EncryptedMessage \<times> RegularOutTunnel) option" where
  "prepareInitMessage c t state =
     (case assembleInit c state of
        None \<Rightarrow> None
      | Some msg \<Rightarrow> Some (msg, t\<lparr>tunnelState := state\<rparr>))"

text \<open>
  The state part of the \<open>StateMeta\<close> case (from the load of \<open>currentState\<close> to the store of
  \<open>lastFullyCheckedAt\<close>). \<open>now\<close> is \<open>time.Now().Unix()\<close>. The result is the error
  returned, if any, and the tunnel as the code left it.
\<close>

definition processState ::
  "collaborators \<Rightarrow> i64 \<Rightarrow> RegularOutTunnel \<Rightarrow> u32 \<Rightarrow> process_error option \<times> RegularOutTunnel" where
  "processState c now t st =
     (let currentState = tunnelState t in
      if currentState < StateTypeOptimized then
        (let (err, t1) =
           (if st = StateTypeConfiguring then
              (case prepareInitMessage c t StateTypeOptimizingRoutes of
                 None \<Rightarrow> (Some PrepareOptimizedFailed, t)
               | Some (msg, ta) \<Rightarrow>
                   (let (swapped, v) = CompareAndSwap (tunnelState ta) StateTypeConfiguring
                                         StateTypeOptimizingRoutes;
                        tb = ta\<lparr>tunnelState := v\<rparr>
                    in case SendCustomMessage c (Message msg) of
                         Some e \<Rightarrow> (Some (SendInitFailed e), tb)
                       | None \<Rightarrow> (None, tb\<lparr>peerSent := peerSent tb @ [Message msg]\<rparr>)))
            else if st = StateTypeOptimizingRoutes then
              (let ta = t\<lparr>tunnelState := StateTypeOptimized\<rparr>;
                   (swapped, v) = CompareAndSwap (tunnelState ta) StateTypeOptimizingRoutes
                                    StateTypeOptimized;
                   tb = ta\<lparr>tunnelState := v\<rparr>
               in (None, if swapped then requestControlMessage tb else tb))
            else (Some (UnknownTunnelState currentState), t))
         in case err of
              Some e \<Rightarrow> (Some e, t1)
            | None \<Rightarrow> (None, t1\<lparr>lastFullyCheckedAt := now\<rparr>))
      else (None, t))"

text \<open>The \<open>DeliverUDPPayload\<close> case.\<close>

definition deliverUDP ::
  "RegularOutTunnel \<Rightarrow> DeliverUDPPayload \<Rightarrow> process_error option \<times> RegularOutTunnel" where
  "deliverUDP t p =
     (if length (du_IP p) \<noteq> 4 \<and> length (du_IP p) \<noteq> 16
        then (Some (InvalidIPLen (length (du_IP p))), t)
      else if du_Port p > 0xFFFF then (Some (InvalidPort (du_Port p)), t)
      else
        (let t1 = t\<lparr>packetsRecv := packetsRecv t + 1\<rparr>;
             prev = seqnoRecv t1;
             (seqnoDiff, t2) =
               (if prev < du_Seqno p then
                  (let (swapped, v) = CompareAndSwap (seqnoRecv t1) prev (du_Seqno p) in
                   (if swapped then du_Seqno p - prev else 0, t1\<lparr>seqnoRecv := v\<rparr>))
                else (0, t1));
             t3 =
               (if usePayments t2 \<and> seqnoDiff > 0 then
                  (let ta = t2\<lparr>packetsRecvPaidConsumed := packetsRecvPaidConsumed t2 + seqnoDiff\<rparr>;
                       paid = packetsMinPaidIn ta;
                       consumed = packetsConsumedIn ta + seqnoDiff;
                       tb = ta\<lparr>packetsConsumedIn := consumed\<rparr>
                   in if paid - consumed <s i64_quo (packetsToPrepay tb) 2
                      then requestControlMessage tb else tb)
                else t2)
         in if length (read t3) < readCapacity
            then (None, t3\<lparr>read := read t3 @ [p]\<rparr>)
            else (Some ReadChannelFull,
                  t3\<lparr>packetsDropped := packetsDropped t3 + 1,
                     warnings := warnings t3 @ [''full, skip'']\<rparr>)))"

text \<open>
  \<open>net.IP.Equal\<close> of Go's standard library: equal byte strings, or a 4-byte address against
  its 16-byte form \<open>::ffff:a.b.c.d\<close>.
\<close>

definition v4InV6Prefix :: bytes where
  "v4InV6Prefix = [0, 0, 0, 0, 0, 0, 0, 0, 0, 0, 0xff, 0xff]"

definition ipEqual :: "bytes \<Rightarrow> bytes \<Rightarrow> bool" where
  "ipEqual ip x =
     (if length ip = length x then ip = x
      else if length ip = 4 \<and> length x = 16 then take 12 x = v4InV6Prefix \<and> ip = drop 12 x
      else if length ip = 16 \<and> length x = 4 then take 12 ip = v4InV6Prefix \<and> drop 12 ip = x
      else False)"

text \<open>
  The \<open>OutBindDonePayload\<close> case. The stored port is a \<open>uint16\<close>: the delivered \<open>uint32\<close> is
  truncated for the comparison and for the store; the handler gets it untruncated.
\<close>

definition outBindDone ::
  "RegularOutTunnel \<Rightarrow> OutBindDonePayload \<Rightarrow> process_error option \<times> RegularOutTunnel" where
  "outBindDone t p =
     (let t1 = (if seqnoRecv t > ob_Seqno p then t\<lparr>seqnoRecv := ob_Seqno p\<rparr> else t) in
      if ipEqual (externalAddr t1) (ob_IP p) \<and> externalPort t1 = ucast (ob_Port p)
        then (None, t1)
      else
        (let t2 = t1\<lparr>externalAddr := ob_IP p, externalPort := ucast (ob_Port p)\<rparr> in
         (None,
          if onOutAddressChanged t2
          then t2\<lparr>handlerCalls := handlerCalls t2 @ [(ob_IP p, uint (ob_Port p))]\<rparr>
          else t2)))"

definition processPayload ::
  "RegularOutTunnel \<Rightarrow> payload_data \<Rightarrow> process_error option \<times> RegularOutTunnel" where
  "processPayload t d =
     (case d of
        DeliverUDP p \<Rightarrow> deliverUDP t p
      | OutBindDone p \<Rightarrow> outBindDone t p
      | OtherPayload \<Rightarrow> (Some IncorrectPayloadType, t))"

text \<open>
  The \<open>PingMeta\<close> case. Run alone, the compare-and-swap of its loop succeeds at the first
  attempt.
\<close>

definition processPing ::
  "collaborators \<Rightarrow> i64 \<Rightarrow> RegularOutTunnel \<Rightarrow> u64 \<Rightarrow> bool
     \<Rightarrow> process_error option \<times> RegularOutTunnel" where
  "processPing c now t seqno withPayments =
     (let sq = controlSeqnoReceived t in
      if sq < seqno then
        (let t1 = t\<lparr>controlSeqnoReceived := snd (CompareAndSwap (controlSeqnoReceived t) sq seqno),
                    lastFullyCheckedAt := now\<rparr>;
             t2 = (if withPayments then
                     t1\<lparr>paymentsConfirmed := snd (CompareAndSwap (paymentsConfirmed t1) 0 1),
                        controlPaidSeqnoReceived := seqno\<rparr>
                   else t1)
         in if tunnelState t2 = StateTypeConfiguring then
              (case prepareInitMessage c t2 StateTypeConfiguring of
                 None \<Rightarrow> (Some PrepareInitFailed, t2)
               | Some (msg, t3) \<Rightarrow>
                   (case SendCustomMessage c (Message msg) of
                      Some e \<Rightarrow> (Some (SendInitFailed e), t3)
                    | None \<Rightarrow> (None, t3\<lparr>peerSent := peerSent t3 @ [Message msg]\<rparr>)))
            else (None, t2))
      else (None, t))"

definition Process ::
  "collaborators \<Rightarrow> i64 \<Rightarrow> RegularOutTunnel \<Rightarrow> bytes \<Rightarrow> meta
     \<Rightarrow> process_error option \<times> RegularOutTunnel" where
  "Process c now t payload m =
     (case m of
        StateMeta st \<Rightarrow>
          (case decryptRecvPayload c (payloadKeys t) payload of
             None \<Rightarrow> (Some DecryptRecvPayloadFailed, t)
           | Some d \<Rightarrow>
               if st = StateTypeDestroyed \<and> wantDestroy t \<noteq> 0 then (None, t\<lparr>closed := True\<rparr>)
               else
                 (case processState c now t st of
                    (Some e, t1) \<Rightarrow> (Some e, t1)
                  | (None, t1) \<Rightarrow> processPayload t1 d))
      | PingMeta seqno withPayments \<Rightarrow> processPing c now t seqno withPayments
      | OtherMeta \<Rightarrow> (Some UnknownMetaType, t))"

section \<open>The payment chain: buildTunnelPaymentsChain\<close>

text \<open>
  \<open>transport.TunnelChainPart\<close>, as the tunnel fills it. A \<open>time.Duration\<close> is an \<open>int\<close>
  (nanoseconds).
\<close>

record TunnelChainPart =
  Target :: bytes
  tcp_Capacity :: int
  Fee :: int
  Deadline :: time

datatype chain_error = EmptyPaymentTunnel | InsufficientCapacity

text \<open>
  The candidate fee of a hop is computed in \<open>big.Float\<close> arithmetic (the percent fee times
  \<open>R\<close>, divided by 100, cut to an integer). That arithmetic is the parameter \<open>cf\<close>: the
  properties below hold for every function in its place. \<open>exactFee\<close> is the value when no
  rounding happens.
\<close>

definition exactFee :: "rat \<Rightarrow> int \<Rightarrow> int" where
  "exactFee pct R =
     (let q = pct * of_int R / 100 in if q < 0 then - \<lfloor>- q\<rfloor> else \<lfloor>q\<rfloor>)"

text \<open>
  The backward pass of one round, for capacity \<open>x\<close>: the list \<open>cumulativeFees[0..n]\<close>.
  The fee of hop \<open>i\<close> is read off \<open>cumulativeFees[i+1]\<close>, the head of the list for the hops
  after it.
\<close>

fun cumulativeFees :: "(rat \<Rightarrow> int \<Rightarrow> int) \<Rightarrow> PaymentTunnelSection list \<Rightarrow> int \<Rightarrow> int list" where
  "cumulativeFees cf [] x = [0]"
| "cumulativeFees cf (s # ss) x =
     (let rest = cumulativeFees cf ss x;
          R = x + hd rest;
          candidateFee = cf (PercentFee s) R;
          feeI = (if candidateFee > MinFee s then candidateFee else MinFee s)
      in (feeI + hd rest) # rest)"

text \<open>
  The forward pass: \<open>newX\<close> starts at the initial capacity and is lowered to every hop's
  \<open>MaxCapacity - cumulativeFees[i+1]\<close>; the second argument is \<open>cumulativeFees[1..n]\<close>.
\<close>

fun newCapacity :: "PaymentTunnelSection list \<Rightarrow> int list \<Rightarrow> int \<Rightarrow> int" where
  "newCapacity (s # ss) (c # cs) newX =
     newCapacity ss cs (let allowed = MaxCapacity s - c in if allowed < newX then allowed else newX)"
| "newCapacity _ _ newX = newX"

text \<open>
  The rounds, \<open>k\<close> of them left: the final \<open>x\<close>, the fee list as the last round left it,
  and the number of rounds run (\<open>done\<close> counts them).
\<close>

fun chainRounds ::
  "(rat \<Rightarrow> int \<Rightarrow> int) \<Rightarrow> PaymentTunnelSection list \<Rightarrow> int \<Rightarrow> nat \<Rightarrow> int \<Rightarrow> int list \<Rightarrow> nat
     \<Rightarrow> int \<times> int list \<times> nat" where
  "chainRounds cf ps initialCapacity 0 x cum done = (x, cum, done)"
| "chainRounds cf ps initialCapacity (Suc k) x cum done =
     (let cum' = cumulativeFees cf ps x;
          newX = newCapacity ps (tl cum') initialCapacity
      in if newX = x then (x, cum', Suc done)
         else chainRounds cf ps initialCapacity k newX cum' (Suc done))"

definition maxIter :: nat where "maxIter = 10"

definition chainFixpoint ::
  "(rat \<Rightarrow> int \<Rightarrow> int) \<Rightarrow> PaymentTunnelSection list \<Rightarrow> int \<Rightarrow> int \<times> int list \<times> nat" where
  "chainFixpoint cf ps initialCapacity =
     chainRounds cf ps initialCapacity maxIter initialCapacity
       (replicate (length ps + 1) 0) 0"

text \<open>The chain parts for hops \<open>i, i+1, ...\<close> from \<open>cumulativeFees[i..n]\<close>; \<open>m = n - i\<close>.\<close>

fun chainParts ::
  "PaymentTunnelSection list \<Rightarrow> int list \<Rightarrow> int \<Rightarrow> time \<Rightarrow> int \<Rightarrow> TunnelChainPart list" where
  "chainParts (s # ss) (c # c' # cs) x base hopTTL =
     \<lparr>Target = pts_Key s, tcp_Capacity = x + c', Fee = c,
      Deadline = base + int (length (s # ss)) * hopTTL\<rparr>
       # chainParts ss (c' # cs) x base hopTTL"
| "chainParts _ _ x base hopTTL = []"

definition buildTunnelPaymentsChain ::
  "(rat \<Rightarrow> int \<Rightarrow> int) \<Rightarrow> time \<Rightarrow> PaymentTunnelSection list \<Rightarrow> int \<Rightarrow> int \<Rightarrow> int
     \<Rightarrow> chain_error + TunnelChainPart list" where
  "buildTunnelPaymentsChain cf now paymentTunnel initialCapacity baseTTL hopTTL =
     (if length paymentTunnel = 0 then Inl EmptyPaymentTunnel
      else
        (let (x, cum, rounds) = chainFixpoint cf paymentTunnel initialCapacity in
         if x < 0 then Inl InsufficientCapacity
         else Inr (chainParts paymentTunnel cum x (now + baseTTL) hopTTL)))"

text \<open>
  What a round establishes: the capacity is at most the initial one, and with the fee list of
  that round it fits under every hop's maximum.
\<close>

definition chainGood :: "PaymentTunnelSection list \<Rightarrow> int \<Rightarrow> int \<Rightarrow> int list \<Rightarrow> bool" where
  "chainGood ps initialCapacity x cum \<longleftrightarrow>
     x \<le> initialCapacity \<and> length cum = length ps + 1 \<and>
     (\<forall>i < length ps. x + cum ! (i + 1) \<le> MaxCapacity (ps ! i))"

section \<open>Reassembly of instructions\<close>

text \<open>The position of the first section whose section key is \<open>key\<close>.\<close>

fun sectionIndex :: "bytes \<Rightarrow> SectionInfo list \<Rightarrow> nat option" where
  "sectionIndex key [] = None"
| "sectionIndex key (info # rest) =
     (if SectionPubKey (Keys info) = key then Some 0
      else map_option Suc (sectionIndex key rest))"

definition resolveSection ::
  "RegularOutTunnel \<Rightarrow> bytes \<Rightarrow> (SectionInfo \<times> SectionInfo option) option" where
  "resolveSection t key =
     (case sectionIndex key (chainTo t) of
        Some i \<Rightarrow>
          Some (chainTo t ! i,
                if i + 1 < length (chainTo t) then Some (chainTo t ! (i + 1))
                else if length (chainFrom t) > 0 then Some (chainFrom t ! 0)
                else None)
      | None \<Rightarrow>
          (case sectionIndex key (chainFrom t) of
             Some i \<Rightarrow>
               Some (chainFrom t ! i,
                     if i + 1 < length (chainFrom t) then Some (chainFrom t ! (i + 1)) else None)
           | None \<Rightarrow> None))"

datatype reassemble_error =
  SectionNotFound bytes
| DecryptStreamFailed bytes
| CorruptedInstructions nat
| ParseInstructionsFailed
| InnerReassembleFailed reassemble_error
| EncryptFailed

text \<open>
  Step 5 of \<open>reassembleInstructions\<close>: the containers are encrypted again, last one first,
  each under the keys of its section.
\<close>

fun encryptContainers ::
  "collaborators \<Rightarrow> (instruction list \<times> SectionInfo) list \<Rightarrow> EncryptedMessage
     \<Rightarrow> reassemble_error + EncryptedMessage" where
  "encryptContainers c [] newMsg = Inr newMsg"
| "encryptContainers c ((container, sec) # earlier) newMsg =
     (case EncryptInstructionsMessage c (Keys sec) newMsg container of
        None \<Rightarrow> Inl EncryptFailed
      | Some m \<Rightarrow> encryptContainers c earlier m)"

text \<open>
  \<open>reassembleInstructions\<close> walks the layers in a loop and calls itself on the inbound
  instructions of every \<open>BindOutInstruction\<close>. Whether that ends depends on what the cipher
  and the parser return, so the walk carries fuel: one unit per layer and per nested call,
  \<open>None\<close> when it runs out. \<open>walkLayers\<close> is the \<open>for\<close> loop, with the containers and
  sections found so far (latest first); \<open>scanContainer\<close> is the inner loop over one
  container's list, returning the list with the bind-outs spliced, the flag \<open>more\<close> and the section
  key to go on with.
\<close>

fun reassembleInstructions ::
    "collaborators \<Rightarrow> RegularOutTunnel \<Rightarrow> nat \<Rightarrow> EncryptedMessage
       \<Rightarrow> (reassemble_error + EncryptedMessage) option"
  and walkLayers ::
    "collaborators \<Rightarrow> RegularOutTunnel \<Rightarrow> nat \<Rightarrow> bytes \<Rightarrow> bytes
       \<Rightarrow> (instruction list \<times> SectionInfo) list
       \<Rightarrow> (reassemble_error + (instruction list \<times> SectionInfo) list) option"
  and scanContainer ::
    "collaborators \<Rightarrow> RegularOutTunnel \<Rightarrow> nat \<Rightarrow> SectionInfo option \<Rightarrow> instruction list
       \<Rightarrow> bool \<Rightarrow> bytes \<Rightarrow> (reassemble_error + (instruction list \<times> bool \<times> bytes)) option"
where
  "reassembleInstructions c t 0 msg = None"
| "reassembleInstructions c t (Suc fuel) msg =
     (case walkLayers c t fuel (em_SectionPubKey msg) (em_Instructions msg) [] of
        None \<Rightarrow> None
      | Some (Inl e) \<Rightarrow> Some (Inl e)
      | Some (Inr found) \<Rightarrow>
          (case encryptContainers c found
                  \<lparr>em_SectionPubKey = [], em_Instructions = [], em_Payload = []\<rparr> of
             Inl e \<Rightarrow> Some (Inl e)
           | Inr newMsg \<Rightarrow> Some (Inr (newMsg\<lparr>em_Payload := em_Payload msg\<rparr>))))"
| "walkLayers c t 0 sectionKey restInstructions found = None"
| "walkLayers c t (Suc fuel) sectionKey restInstructions found =
     (case resolveSection t sectionKey of
        None \<Rightarrow> Some (Inl (SectionNotFound sectionKey))
      | Some (sec, nextSec) \<Rightarrow>
          (case decryptStream c (CipherKeyCRC (Keys sec)) (CipherKey (Keys sec)) restInstructions of
             None \<Rightarrow> Some (Inl (DecryptStreamFailed (SectionPubKey (Keys sec))))
           | Some data \<Rightarrow>
               if length data < 12 then Some (Inl (CorruptedInstructions (length data)))
               else
                 (case tlParse c data of
                    None \<Rightarrow> Some (Inl ParseInstructionsFailed)
                  | Some (container, rest) \<Rightarrow>
                      (case scanContainer c t fuel nextSec container False sectionKey of
                         None \<Rightarrow> None
                       | Some (Inl e) \<Rightarrow> Some (Inl e)
                       | Some (Inr (container', moreLayers, sectionKey')) \<Rightarrow>
                           if moreLayers
                           then walkLayers c t fuel sectionKey' rest ((container', sec) # found)
                           else Some (Inr ((container', sec) # found))))))"
| "scanContainer c t fuel nextSec [] moreLayers sectionKey = Some (Inr ([], moreLayers, sectionKey))"
| "scanContainer c t fuel nextSec (ins # rest) moreLayers sectionKey =
     (case ins of
        RouteInstruction r \<Rightarrow>
          (case scanContainer c t fuel nextSec rest
                  (case nextSec of None \<Rightarrow> moreLayers | Some n \<Rightarrow> True)
                  (case nextSec of None \<Rightarrow> sectionKey | Some n \<Rightarrow> SectionPubKey (Keys n)) of
             None \<Rightarrow> None
           | Some (Inl e) \<Rightarrow> Some (Inl e)
           | Some (Inr (rest', moreLayers', key')) \<Rightarrow> Some (Inr (ins # rest', moreLayers', key')))
      | BindOutInstruction v \<Rightarrow>
          (case reassembleInstructions c t fuel
                  \<lparr>em_SectionPubKey = InboundSectionPubKey v,
                   em_Instructions = InboundInstructions v, em_Payload = []\<rparr> of
             None \<Rightarrow> None
           | Some (Inl e) \<Rightarrow> Some (Inl (InnerReassembleFailed e))
           | Some (Inr inMsg) \<Rightarrow>
               (case scanContainer c t fuel nextSec rest moreLayers sectionKey of
                  None \<Rightarrow> None
                | Some (Inl e) \<Rightarrow> Some (Inl e)
                | Some (Inr (rest', moreLayers', key')) \<Rightarrow>
                    Some (Inr (BindOutInstruction (v\<lparr>InboundInstructions := em_Instructions inMsg\<rparr>)
                                 # rest', moreLayers', key'))))
      | _ \<Rightarrow>
          (case scanContainer c t fuel nextSec rest moreLayers sectionKey of
             None \<Rightarrow> None
           | Some (Inl e) \<Rightarrow> Some (Inl e)
           | Some (Inr (rest', moreLayers', key')) \<Rightarrow> Some (Inr (ins # rest', moreLayers', key'))))"


section \<open>The payment controller\<close>

text \<open>
  \<open>ChannelCapacityForNumPayments\<close> is a package variable, 30 unless the program changes it.
  \<open>ChannelPacketsToPrepay\<close> is copied into the tunnel's \<open>packetsToPrepay\<close> at creation.
\<close>

definition ChannelCapacityForNumPayments :: int where "ChannelCapacityForNumPayments = 30"

definition oneHour :: int where "oneHour = 3600 * 1000000000"

text \<open>
  The payment service and the signing code, as answers: \<open>GenerateKey\<close> is
  \<open>ed25519.GenerateKey\<close> (\<open>None\<close> its error), \<open>PublicKey\<close> is \<open>Key.Public()\<close>,
  \<open>GenerateTunnel\<close> and \<open>OpenVirtualChannel\<close> say whether the calls of these names
  succeeded, \<open>GetVirtualChannelMeta k\<close> is the answer to the poll number \<open>k\<close>,
  \<open>stateToCell key amount\<close> is the cell of the state of that amount signed with \<open>key\<close>
  (\<open>None\<close> when \<open>tlb.ToCell\<close> fails), \<open>AddVirtualChannelResolve\<close> says whether the call
  succeeded, \<open>candidateFee\<close> is the \<open>big.Float\<close> arithmetic of the chain builder.
  \<open>PaymentPurposeOut\<close> and \<open>PaymentPurposeRoute\<close> are constants of the package declared
  outside the sources at hand.
\<close>

datatype meta_answer = MetaNotFound | MetaFailed | MetaPending | MetaActive | MetaOtherStatus

record payment_service =
  GetMinSafeTTL :: int
  GenerateKey :: "bytes option"
  PublicKey :: "bytes \<Rightarrow> bytes"
  GenerateTunnel :: "bytes \<Rightarrow> TunnelChainPart list \<Rightarrow> bool"
  OpenVirtualChannel :: "bytes \<Rightarrow> TunnelChainPart list \<Rightarrow> bool"
  GetVirtualChannelMeta :: "nat \<Rightarrow> meta_answer"
  stateToCell :: "bytes \<Rightarrow> int \<Rightarrow> bytes option"
  AddVirtualChannelResolve :: "bytes \<Rightarrow> int \<Rightarrow> bool"
  candidateFee :: "rat \<Rightarrow> int \<Rightarrow> int"
  PaymentPurposeOut :: u64
  PaymentPurposeRoute :: u64

datatype open_error =
  BuildChainFailed chain_error
| GenerateKeyFailed
| GenerateTunnelFailed
| OpenChannelFailed
| GetMetaFailed
| IncorrectState

text \<open>
  The polling loop of \<open>openVirtualChannel\<close>. It goes on for as long as the service answers
  not-found or pending, so it may never return: then the value is \<open>None\<close>.
\<close>

partial_function (option) awaitChannel ::
  "(nat \<Rightarrow> meta_answer) \<Rightarrow> nat \<Rightarrow> open_error option option" where
  "awaitChannel answers k =
     (case answers k of
        MetaNotFound \<Rightarrow> awaitChannel answers (Suc k)
      | MetaPending \<Rightarrow> awaitChannel answers (Suc k)
      | MetaFailed \<Rightarrow> Some (Some GetMetaFailed)
      | MetaActive \<Rightarrow> Some None
      | MetaOtherStatus \<Rightarrow> Some (Some IncorrectState))"

declare awaitChannel.simps [code]

text \<open>
  \<open>openVirtualChannel\<close>: the payer as the call leaves it (only \<open>PaidChannelFee\<close> can
  change, and only on success) and the error or the new channel; \<open>None\<close> when the polling
  never ends. The chain it builds is not empty when the builder succeeds, so its first and
  last parts exist.
\<close>

definition openVirtualChannel ::
  "payment_service \<Rightarrow> time \<Rightarrow> Payer \<Rightarrow> int
     \<Rightarrow> (Payer \<times> (open_error + VirtualPaymentChannel)) option" where
  "openVirtualChannel svc now p capacity =
     (let hopTTL = GetMinSafeTTL svc in
      case buildTunnelPaymentsChain (candidateFee svc) now (PaymentTunnel p) capacity oneHour
             hopTTL of
        Inl e \<Rightarrow> Some (p, Inl (BuildChainFailed e))
      | Inr tunChain \<Rightarrow>
          (case GenerateKey svc of
             None \<Rightarrow> Some (p, Inl GenerateKeyFailed)
           | Some chKey \<Rightarrow>
               if \<not> GenerateTunnel svc chKey tunChain then Some (p, Inl GenerateTunnelFailed)
               else if \<not> OpenVirtualChannel svc chKey tunChain then Some (p, Inl OpenChannelFailed)
               else
                 (case awaitChannel (GetVirtualChannelMeta svc) 0 of
                    None \<Rightarrow> None
                  | Some (Some e) \<Rightarrow> Some (p, Inl e)
                  | Some None \<Rightarrow>
                      Some (p\<lparr>PaidChannelFee :=
                                Some ((case PaidChannelFee p of None \<Rightarrow> 0 | Some f \<Rightarrow> f)
                                      + Fee (hd tunChain))\<rparr>,
                            Inr \<lparr>vc_Key = chKey, LastAmount = 0,
                                 Capacity = tcp_Capacity (last tunChain),
                                 SafeDeadline = Deadline (last tunChain) - hopTTL\<rparr>))))"

text \<open>
  A queued mutation: what the closure appended to \<open>mutations\<close> has captured (the hop whose
  payer it changes, \<open>payFor\<close>, the instruction, \<open>stateAmount\<close>, \<open>isFinal\<close>).
\<close>

record mutation =
  mu_hop :: nat
  payFor :: i64
  mu_pi :: PaymentInstruction
  stateAmount :: int
  isFinal :: bool

datatype prepare_error =
  EncryptLayerFailed
| OpenVirtualChannelFailed open_error
| StateToCellFailed
| AddResolveFailed

text \<open>
  One call of \<open>prepareTunnelControlMessage\<close> reads the clock several times; the model gives
  it one instant \<open>now\<close> for all of them. The first lines for a paying hop: a payment that
  was sent after the last confirmed one is attached again while its channel deadline is in the
  future; past the deadline it is dropped and its packets are taken off \<open>PaidPackets\<close>, at
  once and in the payer itself. The result is the payer, the instructions so far and
  \<open>skipNewPayment\<close>.
\<close>

definition resendOrDiscard :: "time \<Rightarrow> u64 \<Rightarrow> Payer \<Rightarrow> Payer \<times> instruction list \<times> bool" where
  "resendOrDiscard now paidSeqnoReceived p =
     (case LatestInstruction p of
        None \<Rightarrow> (p, [], False)
      | Some li \<Rightarrow>
          if LatestPaidOnSeqno p > paidSeqnoReceived then
            (if LatestChannelDeadline p > now then (p, [PaymentInstr li], True)
             else (p\<lparr>LatestInstruction := None,
                     PaidPackets := PaidPackets p - LatestPacketsPaid p\<rparr>, [], False))
          else (p, [], False))"

text \<open>Which consumed counter a hop is charged against, by its position \<open>i\<close>.\<close>

definition hopConsumed :: "i64 \<Rightarrow> i64 \<Rightarrow> nat \<Rightarrow> nat \<Rightarrow> i64" where
  "hopConsumed consumedOut consumedIn lenChainTo i =
     (if i \<ge> lenChainTo then consumedIn
      else if Suc i = lenChainTo then (if consumedOut <s consumedIn then consumedIn else consumedOut)
      else consumedOut)"

text \<open>
  The block under \<open>if !skipNewPayment\<close>. The assignment
  \<open>p.CurrentChannel, err = t.openVirtualChannel(p, wantCap)\<close> also stores the nil channel
  of a failed opening. Nothing else of the payer is written here: the rest is queued.
\<close>

definition mintPayment ::
  "payment_service \<Rightarrow> time \<Rightarrow> i64 \<Rightarrow> bool \<Rightarrow> bool \<Rightarrow> u32 \<Rightarrow> nat \<Rightarrow> i64 \<Rightarrow> Payer
     \<Rightarrow> (Payer \<times> (prepare_error + instruction list \<times> mutation option)) option" where
  "mintPayment svc now toPrepay forcePayments outGate routeId i consumed p =
     (let balance = PaidPackets p - consumed in
      if balance \<le>s i64_quo toPrepay 2 \<or> forcePayments then
        (let prepay0 = toPrepay - balance;
             prepay = (if prepay0 <s 0 then 0 else prepay0);
             price = uint (PricePerPacket p);
             opened =
               (case CurrentChannel p of
                  Some ch \<Rightarrow>
                    if SafeDeadline ch < now
                    then openVirtualChannel svc now p
                           (sint toPrepay * price * ChannelCapacityForNumPayments)
                    else Some (p, Inr ch)
                | None \<Rightarrow>
                    openVirtualChannel svc now p
                      (sint toPrepay * price * ChannelCapacityForNumPayments))
         in case opened of
              None \<Rightarrow> None
            | Some (p1, Inl e) \<Rightarrow>
                Some (p1\<lparr>CurrentChannel := None\<rparr>, Inl (OpenVirtualChannelFailed e))
            | Some (p1, Inr ch) \<Rightarrow>
                (let p2 = p1\<lparr>CurrentChannel := Some ch\<rparr>;
                     left = Capacity ch - LastAmount ch;
                     room = (word_of_int (left div price) :: i64);
                     final = \<not> (prepay <s room);
                     pays = (if prepay <s room then prepay else room);
                     amount = sint pays * price;
                     newAmount = LastAmount ch + amount
                 in case stateToCell svc (vc_Key ch) newAmount of
                      None \<Rightarrow> Some (p2, Inl StateToCellFailed)
                    | Some pcs \<Rightarrow>
                        if \<not> AddVirtualChannelResolve svc (PublicKey svc (vc_Key ch)) newAmount
                        then Some (p2, Inl AddResolveFailed)
                        else
                          (let pi = \<lparr>pi_Key = PublicKey svc (vc_Key ch),
                                     pi_PaymentChannelState = pcs, pi_Final = final,
                                     pi_Purpose =
                                       (if outGate then push_bit 32 (PaymentPurposeOut svc)
                                        else push_bit 32 (PaymentPurposeRoute svc) OR ucast routeId)\<rparr>;
                               previous =
                                 (case LatestInstruction p2 of
                                    Some li \<Rightarrow>
                                      if forcePayments \<and> LatestChannelDeadline p2 > now
                                         \<and> LatestChannelDeadline p2 \<noteq> SafeDeadline ch
                                      then [PaymentInstr li] else []
                                  | None \<Rightarrow> [])
                           in Some (p2,
                                    Inr (previous @ [PaymentInstr pi],
                                         Some \<lparr>mu_hop = i, payFor = pays, mu_pi = pi,
                                               stateAmount = newAmount, isFinal = final\<rparr>)))))
      else Some (p, Inr ([], None)))"

text \<open>
  The payment part of one hop (the whole block under \<open>// check if we need to pay\<close>, for a
  payer \<open>p\<close> that passed its guard).
\<close>

definition payHop ::
  "payment_service \<Rightarrow> time \<Rightarrow> u64 \<Rightarrow> i64 \<Rightarrow> bool \<Rightarrow> bool \<Rightarrow> u32 \<Rightarrow> nat \<Rightarrow> i64 \<Rightarrow> Payer
     \<Rightarrow> (Payer \<times> (prepare_error + instruction list \<times> mutation option)) option" where
  "payHop svc now paidSeqnoReceived toPrepay forcePayments outGate routeId i consumed p =
     (case resendOrDiscard now paidSeqnoReceived p of
        (p1, instructions, skipNewPayment) \<Rightarrow>
          if skipNewPayment then Some (p1, Inr (instructions, None))
          else
            (case mintPayment svc now toPrepay forcePayments outGate routeId i consumed p1 of
               None \<Rightarrow> None
             | Some (p2, Inl e) \<Rightarrow> Some (p2, Inl e)
             | Some (p2, Inr (minted, m)) \<Rightarrow> Some (p2, Inr (instructions @ minted, m))))"

text \<open>\<open>binary.LittleEndian.Uint32\<close>; it panics on fewer than 4 bytes (\<open>None\<close>).\<close>

definition leUint32 :: "bytes \<Rightarrow> u32 option" where
  "leUint32 b =
     (case b of
        b0 # b1 # b2 # b3 # _ \<Rightarrow>
          Some (ucast b0 OR push_bit 8 (ucast b1) OR push_bit 16 (ucast b2)
                OR push_bit 24 (ucast b3))
      | _ \<Rightarrow> None)"

text \<open>
  The state of the assembly loop: the message so far, the sections (the payers in them as
  the loop has left them) and the queued mutations, oldest first. The chains hold pointers
  to the sections; the model takes every section to be its own object, with its own payer.
\<close>

record assembly =
  as_msg :: EncryptedMessage
  as_nodes :: "SectionInfo list"
  as_mutations :: "mutation list"

datatype prepare_stop = Failed prepare_error | Panicked string

text \<open>
  The instructions of hop \<open>i\<close> below the last one, before the route instruction: the
  payer of the hop as the payment part leaves it, and the error or the payment instructions
  with the mutation to queue.
\<close>

definition hopPayments ::
  "(nat \<Rightarrow> payment_service) \<Rightarrow> time \<Rightarrow> RegularOutTunnel \<Rightarrow> bool \<Rightarrow> bool \<Rightarrow> u32 \<Rightarrow> nat
     \<Rightarrow> Payer option
     \<Rightarrow> (Payer option \<times> (prepare_error + instruction list \<times> mutation option)) option" where
  "hopPayments svc now t withPayments forcePayments routeId i po =
     (case po of
        None \<Rightarrow> Some (None, Inr ([], None))
      | Some p \<Rightarrow>
          if withPayments \<and> PricePerPacket p > 0 then
            (case payHop (svc i) now (controlPaidSeqnoReceived t) (packetsToPrepay t)
                    forcePayments (Suc i = length (chainTo t)) routeId i
                    (hopConsumed (packetsConsumedOut t) (packetsConsumedIn t)
                       (length (chainTo t)) i) p of
               None \<Rightarrow> None
             | Some (p', r) \<Rightarrow> Some (Some p', r))
          else Some (Some p, Inr ([], None)))"

text \<open>One turn of the loop \<open>for i := len(nodes) - 1; i >= 0; i--\<close>.\<close>

definition controlHop ::
  "collaborators \<Rightarrow> (nat \<Rightarrow> payment_service) \<Rightarrow> time \<Rightarrow> RegularOutTunnel \<Rightarrow> bool \<Rightarrow> bool
     \<Rightarrow> nat \<Rightarrow> assembly \<Rightarrow> (prepare_stop option \<times> assembly) option" where
  "controlHop c svc now t withPayments forcePayments i a =
     (let nodes = as_nodes a in
      if Suc i = length nodes then
        (case EncryptInstructionsMessage c (Keys (nodes ! i)) (as_msg a)
                [DeliverInitiatorInstruction (localID t)
                   (PingMeta (controlSeqno t + 1) withPayments)] of
           None \<Rightarrow> Some (Some (Failed EncryptLayerFailed), a)
         | Some m \<Rightarrow> Some (None, a\<lparr>as_msg := m\<rparr>))
      else
        (case leUint32 (SectionPubKey (Keys (nodes ! (i + 1)))) of
           None \<Rightarrow> Some (Some (Panicked ''index out of range''), a)
         | Some routeId \<Rightarrow>
             (case hopPayments svc now t withPayments forcePayments routeId i
                     (PaymentInfo (nodes ! i)) of
                None \<Rightarrow> None
              | Some (po, r) \<Rightarrow>
                  (let a1 = a\<lparr>as_nodes := nodes[i := (nodes ! i)\<lparr>PaymentInfo := po\<rparr>]\<rparr> in
                   case r of
                     Inl e \<Rightarrow> Some (Some (Failed e), a1)
                   | Inr (instructions, m) \<Rightarrow>
                       (let a2 = a1\<lparr>as_mutations :=
                                      as_mutations a1 @ (case m of None \<Rightarrow> [] | Some mu \<Rightarrow> [mu])\<rparr>
                        in case EncryptInstructionsMessage c (Keys (nodes ! i)) (as_msg a2)
                                  (instructions @ [RouteInstruction (NOT routeId)]) of
                             None \<Rightarrow> Some (Some (Failed EncryptLayerFailed), a2)
                           | Some m' \<Rightarrow> Some (None, a2\<lparr>as_msg := m'\<rparr>))))))"

text \<open>The loop, for the indices below \<open>k\<close>, highest first.\<close>

fun assembleControl ::
  "collaborators \<Rightarrow> (nat \<Rightarrow> payment_service) \<Rightarrow> time \<Rightarrow> RegularOutTunnel \<Rightarrow> bool \<Rightarrow> bool
     \<Rightarrow> nat \<Rightarrow> assembly \<Rightarrow> (prepare_stop option \<times> assembly) option" where
  "assembleControl c svc now t withPayments forcePayments 0 a = Some (None, a)"
| "assembleControl c svc now t withPayments forcePayments (Suc i) a =
     (case controlHop c svc now t withPayments forcePayments i a of
        None \<Rightarrow> None
      | Some (Some stop, a') \<Rightarrow> Some (Some stop, a')
      | Some (None, a') \<Rightarrow> assembleControl c svc now t withPayments forcePayments i a')"

text \<open>
  The body of a queued closure, run on the payer of its hop after \<open>controlSeqno\<close> was
  incremented; it reads \<open>p.CurrentChannel\<close> when it runs (\<open>None\<close>: a nil channel there
  would be a panic).
\<close>

definition applyMutation :: "u64 \<Rightarrow> mutation \<Rightarrow> Payer \<Rightarrow> Payer option" where
  "applyMutation seqno mu p =
     (case CurrentChannel p of
        None \<Rightarrow> None
      | Some ch \<Rightarrow>
          Some (p\<lparr>PaidPackets := PaidPackets p + payFor mu,
                  LatestPacketsPaid := payFor mu,
                  LatestInstruction := Some (mu_pi mu),
                  LatestChannelDeadline := SafeDeadline ch,
                  LatestPaidOnSeqno := seqno,
                  CurrentChannel :=
                    (if isFinal mu then None else Some (ch\<lparr>LastAmount := stateAmount mu\<rparr>))\<rparr>))"

text \<open>
  The closures run in the order they were queued. The flag says whether all of them ran; the
  sections are as the closures that ran left them.
\<close>

fun applyMutations :: "u64 \<Rightarrow> mutation list \<Rightarrow> SectionInfo list \<Rightarrow> bool \<times> SectionInfo list" where
  "applyMutations seqno [] nodes = (True, nodes)"
| "applyMutations seqno (mu # rest) nodes =
     (if mu_hop mu < length nodes then
        (case PaymentInfo (nodes ! mu_hop mu) of
           None \<Rightarrow> (False, nodes)
         | Some p \<Rightarrow>
             (case applyMutation seqno mu p of
                None \<Rightarrow> (False, nodes)
              | Some p' \<Rightarrow>
                  applyMutations seqno rest
                    (nodes[mu_hop mu := (nodes ! mu_hop mu)\<lparr>PaymentInfo := Some p'\<rparr>])))
      else (False, nodes))"

text \<open>
  The last loop: the earliest safe deadline of the open channels and the least
  \<open>PaidPackets\<close> on the way in and on the way out, over the sections from index \<open>i\<close> on
  (\<open>n\<close> is the number of all sections).
\<close>

definition MaxInt64 :: i64 where "MaxInt64 = 0x7FFFFFFFFFFFFFFF"

fun minPaid :: "nat \<Rightarrow> nat \<Rightarrow> nat \<Rightarrow> SectionInfo list \<Rightarrow> time \<times> i64 \<times> i64 \<Rightarrow> time \<times> i64 \<times> i64" where
  "minPaid lenChainTo n i [] acc = acc"
| "minPaid lenChainTo n i (node # rest) (minDeadline, minPaidIn, minPaidOut) =
     minPaid lenChainTo n (Suc i) rest
       (if Suc i = n then (minDeadline, minPaidIn, minPaidOut)
        else
          (case PaymentInfo node of
             None \<Rightarrow> (minDeadline, minPaidIn, minPaidOut)
           | Some p \<Rightarrow>
               (let d = (case CurrentChannel p of
                           Some ch \<Rightarrow>
                             if minDeadline = 0 \<or> SafeDeadline ch < minDeadline
                             then SafeDeadline ch else minDeadline
                         | None \<Rightarrow> minDeadline);
                    lower = (\<lambda>m. if PaidPackets p <s m then PaidPackets p else m)
                in if i \<ge> lenChainTo then (d, lower minPaidIn, minPaidOut)
                   else if Suc i = lenChainTo then (d, lower minPaidIn, lower minPaidOut)
                   else (d, minPaidIn, lower minPaidOut))))"

datatype prepare_result =
  Prepared EncryptedMessage time
| PrepareError prepare_error
| PreparePanic string

text \<open>
  \<open>prepareTunnelControlMessage\<close>. The sections are written back into the two chains
  whatever the outcome, since the loop works on the payers themselves. \<open>None\<close>: a channel
  opening that never returned.
\<close>

definition storeNodes :: "RegularOutTunnel \<Rightarrow> SectionInfo list \<Rightarrow> RegularOutTunnel" where
  "storeNodes t nodes =
     t\<lparr>chainTo := take (length (chainTo t)) nodes, chainFrom := drop (length (chainTo t)) nodes\<rparr>"

definition prepareTunnelControlMessage ::
  "collaborators \<Rightarrow> (nat \<Rightarrow> payment_service) \<Rightarrow> time \<Rightarrow> RegularOutTunnel \<Rightarrow> bool \<Rightarrow> bool
     \<Rightarrow> (prepare_result \<times> RegularOutTunnel) option" where
  "prepareTunnelControlMessage c svc now t withPayments forcePayments =
     (let nodes = chainTo t @ chainFrom t;
          start = \<lparr>as_msg = \<lparr>em_SectionPubKey = [], em_Instructions = [], em_Payload = []\<rparr>,
                   as_nodes = nodes, as_mutations = []\<rparr>
      in case assembleControl c svc now t withPayments forcePayments (length nodes) start of
           None \<Rightarrow> None
         | Some (Some (Failed e), a) \<Rightarrow> Some (PrepareError e, storeNodes t (as_nodes a))
         | Some (Some (Panicked s), a) \<Rightarrow> Some (PreparePanic s, storeNodes t (as_nodes a))
         | Some (None, a) \<Rightarrow>
             (let t1 = t\<lparr>controlSeqno := controlSeqno t + 1\<rparr> in
              case applyMutations (controlSeqno t1) (as_mutations a) (as_nodes a) of
                (False, nodes') \<Rightarrow>
                  Some (PreparePanic ''nil pointer dereference'', storeNodes t1 nodes')
              | (True, nodes') \<Rightarrow>
                  (case minPaid (length (chainTo t)) (length nodes') 0 nodes'
                          (0, MaxInt64, MaxInt64) of
                     (minDeadline, minPaidIn, minPaidOut) \<Rightarrow>
                       Some (Prepared (as_msg a) minDeadline,
                             (storeNodes t1 nodes')\<lparr>packetsMinPaidIn := minPaidIn,
                                                     packetsMinPaidOut := minPaidOut\<rparr>))))"

text \<open>
  What a call that stops with an error may have done to a payer \<open>p\<close> (\<open>p'\<close> is the payer
  afterwards): nothing of what the queued closures write, except that an unconfirmed latest
  payment past its channel deadline is dropped with its packets taken off \<open>PaidPackets\<close>,
  and that an absent or expired channel is replaced by a newly opened one, on which nothing
  is spent yet, or by none.
\<close>

definition payerKept :: "u64 \<Rightarrow> time \<Rightarrow> Payer \<Rightarrow> Payer \<Rightarrow> bool" where
  "payerKept paidSeqnoReceived now p p' \<longleftrightarrow>
     PaymentTunnel p' = PaymentTunnel p \<and> PricePerPacket p' = PricePerPacket p
     \<and> LatestChannelDeadline p' = LatestChannelDeadline p
     \<and> LatestPaidOnSeqno p' = LatestPaidOnSeqno p
     \<and> LatestPacketsPaid p' = LatestPacketsPaid p
     \<and> (if PaidPackets p' = PaidPackets p \<and> LatestInstruction p' = LatestInstruction p then True
         else LatestInstruction p \<noteq> None \<and> LatestPaidOnSeqno p > paidSeqnoReceived
              \<and> LatestChannelDeadline p \<le> now \<and> LatestInstruction p' = None
              \<and> PaidPackets p' = PaidPackets p - LatestPacketsPaid p)
     \<and> (if CurrentChannel p' = CurrentChannel p then True
         else (case CurrentChannel p of None \<Rightarrow> True | Some ch \<Rightarrow> SafeDeadline ch < now)
              \<and> (case CurrentChannel p' of None \<Rightarrow> True | Some ch' \<Rightarrow> LastAmount ch' = 0))"

definition sectionKept :: "u64 \<Rightarrow> time \<Rightarrow> SectionInfo \<Rightarrow> SectionInfo \<Rightarrow> bool" where
  "sectionKept paidSeqnoReceived now s s' \<longleftrightarrow>
     Keys s' = Keys s
     \<and> (case PaymentInfo s of
          None \<Rightarrow> PaymentInfo s' = None
        | Some p \<Rightarrow>
            (case PaymentInfo s' of
               None \<Rightarrow> False
             | Some p' \<Rightarrow> payerKept paidSeqnoReceived now p p'))"

section \<open>The control loop\<close>









section \<open>Sample values\<close>

text \<open>
  A tunnel with one forward and one reverse section, in state Optimized, with payments in
  use and 10 packets of prepaid headroom, and collaborators that never fail. The instances
  of the theorems below are taken at these values and at updates of them.
\<close>

definition sampleKeys :: "nat \<Rightarrow> EncryptionKeys" where
  "sampleKeys k =
     \<lparr>ReceiverPubKey = [of_nat k, 1], SectionPubKey = [of_nat k, 2, 0, 0],
      CipherKey = [of_nat k, 3], CipherKeyCRC = [of_nat k, 4]\<rparr>"

text \<open>
  A toy codec for the instruction layers: a container is 12 bytes, the first of which says
  whether the container holds a route instruction.
\<close>

fun isRoute :: "instruction \<Rightarrow> bool" where
  "isRoute (RouteInstruction r) = True"
| "isRoute _ = False"

definition toyContainer :: "instruction list \<Rightarrow> bytes" where
  "toyContainer ins = (if list_ex isRoute ins then 1 else 0) # [0, 0, 0, 0, 0, 0, 0, 0, 0, 0, 0]"

definition toyParse :: "bytes \<Rightarrow> (instruction list \<times> bytes) option" where
  "toyParse data =
     (case data of
        [] \<Rightarrow> None
      | tag # _ \<Rightarrow> Some (if tag = 1 then [RouteInstruction 0] else [], drop 12 data))"

definition sampleCollaborators :: collaborators where
  "sampleCollaborators =
     \<lparr>Serialize = (\<lambda>pl. Some (so_IP pl @ so_Payload pl)),
      EncryptPayload = (\<lambda>k b. Some (rev b)),
      SendCustomMessage = (\<lambda>m. None),
      decryptRecvPayload = (\<lambda>k b. None),
      assembleInit = (\<lambda>st. None),
      EncryptInstructionsMessage =
        (\<lambda>k msg ins. Some \<lparr>em_SectionPubKey = SectionPubKey k,
                              em_Instructions = toyContainer ins @ em_Instructions msg,
                              em_Payload = em_Payload msg\<rparr>),
      decryptStream = (\<lambda>crc key data. Some data),
      tlParse = toyParse\<rparr>"

definition sampleTunnel :: RegularOutTunnel where
  "sampleTunnel =
     \<lparr>localID = 7, usePayments = True, paymentsConfirmed = 1, wantDestroy = 0,
      tunnelState = StateTypeOptimized, sendControlSignal = False,
      externalAddr = [203, 0, 113, 7], externalPort = 51820, onOutAddressChanged = True,
      chainTo = [\<lparr>Keys = sampleKeys 1, PaymentInfo = None\<rparr>],
      chainFrom = [\<lparr>Keys = sampleKeys 2, PaymentInfo = None\<rparr>],
      payloadKeys = sampleKeys 3, read = [],
      seqnoSend = 41, seqnoRecv = 42, packetsRecv = 40, packetsRecvPaidConsumed = 42,
      packetsDropped = 0, packetsSent = 41,
      controlSeqno = 5, controlSeqnoReceived = 5, controlPaidSeqnoReceived = 5,
      packetsToPrepay = 200000, packetsConsumedIn = 42, packetsConsumedOut = 41,
      packetsMinPaidIn = 100, packetsMinPaidOut = 51, lastFullyCheckedAt = 1000,
      seqnoForward = 41, peerSent = [], handlerCalls = [], closed = False, warnings = []\<rparr>"

definition sampleDelivery :: DeliverUDPPayload where
  "sampleDelivery = \<lparr>du_Seqno = 45, du_IP = [8, 8, 8, 8], du_Port = 53, du_Payload = [9]\<rparr>"

definition sampleBindDone :: OutBindDonePayload where
  "sampleBindDone = \<lparr>ob_Seqno = 0, ob_IP = [198, 51, 100, 9], ob_Port = 4000\<rparr>"

text \<open>Collaborators whose payload cipher decrypts every inbound payload to \<open>d\<close>.\<close>

definition delivering :: "payload_data \<Rightarrow> collaborators" where
  "delivering d = sampleCollaborators\<lparr>decryptRecvPayload := (\<lambda>k b. Some d)\<rparr>"

definition sampleSections :: "PaymentTunnelSection list" where
  "sampleSections =
     [\<lparr>pts_Key = [1], MinFee = 1, PercentFee = 1 / 2, MaxCapacity = 50000\<rparr>,
      \<lparr>pts_Key = [2], MinFee = 100, PercentFee = 1, MaxCapacity = 40000\<rparr>]"

text \<open>Two layers, the first with a route instruction; and the same with a stray byte behind.\<close>

definition sampleLayers :: bytes where
  "sampleLayers = [1, 0, 0, 0, 0, 0, 0, 0, 0, 0, 0, 0] @ [0, 0, 0, 0, 0, 0, 0, 0, 0, 0, 0, 0]"

definition sampleMessage :: EncryptedMessage where
  "sampleMessage = \<lparr>em_SectionPubKey = [1, 2, 0, 0], em_Instructions = sampleLayers, em_Payload = [7]\<rparr>"


text \<open>
  A payment service that opens a channel at the third poll, and a payer whose latest payment
  (100000 packets, sent with control message 6) is not confirmed and whose channel deadline,
  500, is over at the instant 1000; 7000 of its channel's 40000 are spent.
\<close>

definition sampleService :: payment_service where
  "sampleService =
     \<lparr>GetMinSafeTTL = 10, GenerateKey = Some [5, 5], PublicKey = rev,
      GenerateTunnel = (\<lambda>k ch. True), OpenVirtualChannel = (\<lambda>k ch. True),
      GetVirtualChannelMeta = (\<lambda>k. if k < 2 then MetaPending else MetaActive),
      stateToCell = (\<lambda>k a. Some [1]), AddVirtualChannelResolve = (\<lambda>k a. True),
      candidateFee = exactFee, PaymentPurposeOut = 1, PaymentPurposeRoute = 2\<rparr>"

definition sampleInstruction :: PaymentInstruction where
  "sampleInstruction =
     \<lparr>pi_Key = [6, 6], pi_PaymentChannelState = [3], pi_Final = False, pi_Purpose = 4294967296\<rparr>"

definition samplePayer :: Payer where
  "samplePayer =
     \<lparr>PaymentTunnel = sampleSections, PricePerPacket = 10, PaidPackets = 150000,
      CurrentChannel =
        Some \<lparr>vc_Key = [4, 4], LastAmount = 7000, Capacity = 40000, SafeDeadline = 500\<rparr>,
      PaidChannelFee = Some 602, LatestChannelDeadline = 500,
      LatestPaidOnSeqno = 6, LatestInstruction = Some sampleInstruction,
      LatestPacketsPaid = 100000\<rparr>"

definition payingTunnel :: RegularOutTunnel where
  "payingTunnel = sampleTunnel\<lparr>chainTo := [\<lparr>Keys = sampleKeys 1, PaymentInfo = Some samplePayer\<rparr>]\<rparr>"

text \<open>Collaborators whose instruction encryption fails under the keys of the first section.\<close>

definition failingFirst :: collaborators where
  "failingFirst =
     sampleCollaborators\<lparr>EncryptInstructionsMessage :=
       (\<lambda>k msg ins. if SectionPubKey k = [1, 2, 0, 0] then None
                     else EncryptInstructionsMessage sampleCollaborators k msg ins)\<rparr>"

text \<open>The sample payer after its expired payment was dropped, and the payment then minted.\<close>

definition discarded :: Payer where
  "discarded = samplePayer\<lparr>LatestInstruction := None, PaidPackets := 50000\<rparr>"

definition mintedInstruction :: PaymentInstruction where
  "mintedInstruction =
     \<lparr>pi_Key = [5, 5], pi_PaymentChannelState = [1], pi_Final = True, pi_Purpose = 4294967296\<rparr>"

definition freshChannel :: VirtualPaymentChannel where
  "freshChannel =
     \<lparr>vc_Key = [5, 5], LastAmount = 0, Capacity = 40000, SafeDeadline = 3600000001000\<rparr>"

definition afterOpening :: Payer where
  "afterOpening = discarded\<lparr>PaidChannelFee := Some 1204, CurrentChannel := Some freshChannel\<rparr>"

definition sampleMutation :: mutation where
  "sampleMutation =
     \<lparr>mu_hop = 0, payFor = 4000, mu_pi = mintedInstruction, stateAmount = 40000, isFinal = True\<rparr>"

text \<open>
  The sections of a loop state are related to the sections it started from: same length, the
  sections from index \<open>k\<close> on untouched, the others kept in the sense above.
\<close>

definition nodesKept :: "u64 \<Rightarrow> time \<Rightarrow> nat \<Rightarrow> SectionInfo list \<Rightarrow> SectionInfo list \<Rightarrow> bool" where
  "nodesKept psr now k nodes nodes' \<longleftrightarrow>
     length nodes' = length nodes
     \<and> (\<forall>j < length nodes. (k \<le> j \<longrightarrow> nodes' ! j = nodes ! j)
                           \<and> sectionKept psr now (nodes ! j) (nodes' ! j))"

text \<open>What minting a payment may do to the payer before anything is queued.\<close>

definition mintFrame :: "time \<Rightarrow> Payer \<Rightarrow> Payer \<Rightarrow> bool" where
  "mintFrame now p p' \<longleftrightarrow>
     PaymentTunnel p' = PaymentTunnel p \<and> PricePerPacket p' = PricePerPacket p
     \<and> PaidPackets p' = PaidPackets p
     \<and> LatestChannelDeadline p' = LatestChannelDeadline p
     \<and> LatestPaidOnSeqno p' = LatestPaidOnSeqno p
     \<and> LatestInstruction p' = LatestInstruction p
     \<and> LatestPacketsPaid p' = LatestPacketsPaid p
     \<and> (CurrentChannel p' = CurrentChannel p
        \<or> (case CurrentChannel p of None \<Rightarrow> True | Some ch \<Rightarrow> SafeDeadline ch < now)
          \<and> (case CurrentChannel p' of None \<Rightarrow> True | Some ch' \<Rightarrow> LastAmount ch' = 0))"


text \<open>
  Collaborators that decrypt every inbound payload to \<open>d\<close> and assemble init messages, but
  whose peer refuses every message.
\<close>

definition unsendable :: "payload_data \<Rightarrow> collaborators" where
  "unsendable d =
     (delivering d)\<lparr>assembleInit := (\<lambda>st. Some sampleMessage),
                    SendCustomMessage := (\<lambda>m. Some ErrOther)\<rparr>"




section \<open>Properties of WriteTo\<close>







text \<open>
  Claim C10. A call of \<open>WriteTo\<close> with an empty payload returns \<open>(0, nil)\<close> and leaves
  the whole tunnel as it was, whatever the state, the destroy flag and the prepaid balance are,
  and whatever the collaborators would answer.
\<close>

theorem WriteTo_empty: "WriteTo c t [] addr = (Return (0, None), t)"
  by (simp add: WriteTo_def)


section \<open>Properties of Process\<close>

text \<open>The state part touches neither the packet counters, nor the queue, nor the address.\<close>

lemma processState_frame:
  "processState c now t st = (err, t1) \<Longrightarrow>
     packetsRecv t1 = packetsRecv t \<and> seqnoRecv t1 = seqnoRecv t
     \<and> packetsRecvPaidConsumed t1 = packetsRecvPaidConsumed t
     \<and> packetsConsumedIn t1 = packetsConsumedIn t \<and> packetsConsumedOut t1 = packetsConsumedOut t
     \<and> packetsMinPaidIn t1 = packetsMinPaidIn t \<and> packetsMinPaidOut t1 = packetsMinPaidOut t
     \<and> packetsDropped t1 = packetsDropped t \<and> read t1 = read t
     \<and> externalAddr t1 = externalAddr t \<and> externalPort t1 = externalPort t
     \<and> handlerCalls t1 = handlerCalls t \<and> onOutAddressChanged t1 = onOutAddressChanged t
     \<and> usePayments t1 = usePayments t \<and> packetsToPrepay t1 = packetsToPrepay t"
  by (auto simp: processState_def prepareInitMessage_def CompareAndSwap_def Let_def
        requestControlMessage_def split: if_splits option.splits prod.splits)

lemma Process_StateMeta_cases:
  assumes dec: "decryptRecvPayload c (payloadKeys t) payload = Some d"
      and run: "Process c now t payload (StateMeta st) = (err, t')"
  shows "(st = StateTypeDestroyed \<and> wantDestroy t \<noteq> 0 \<and> err = None \<and> t' = t\<lparr>closed := True\<rparr>)
       \<or> (\<not> (st = StateTypeDestroyed \<and> wantDestroy t \<noteq> 0)
            \<and> (\<exists>e. processState c now t st = (Some e, t') \<and> err = Some e))
       \<or> (\<not> (st = StateTypeDestroyed \<and> wantDestroy t \<noteq> 0)
            \<and> (\<exists>t1. processState c now t st = (None, t1) \<and> processPayload t1 d = (err, t')))"
  using dec run
  by (cases "processState c now t st") (auto simp: Process_def split: if_splits option.splits)

lemma deliverUDP_invalid:
  "(length (du_IP p) \<noteq> 4 \<and> length (du_IP p) \<noteq> 16) \<or> du_Port p > 0xFFFF \<Longrightarrow>
     \<exists>e. deliverUDP t p = (Some e, t) \<and> (e = InvalidIPLen (length (du_IP p)) \<or> e = InvalidPort (du_Port p))"
  by (auto simp: deliverUDP_def)

lemma deliverUDP_valid:
  assumes "length (du_IP p) = 4 \<or> length (du_IP p) = 16" and "du_Port p \<le> 0xFFFF"
      and "deliverUDP t p = (err, t')"
  shows "packetsRecv t' = packetsRecv t + 1
     \<and> seqnoRecv t' = (if seqnoRecv t < du_Seqno p then du_Seqno p else seqnoRecv t)"
  using assms
  by (auto simp: deliverUDP_def CompareAndSwap_def Let_def requestControlMessage_def
        split: if_splits prod.splits)

text \<open>
  Claim C8, as amended. Take any call of \<open>Process\<close> with a \<open>StateMeta\<close> whose payload decrypts to a
  \<open>DeliverUDPPayload\<close>. If the IP length is neither 4 nor 16, or the port exceeds 65535, then
  \<open>packetsRecv\<close>, \<open>seqnoRecv\<close>, the payment counters, the drop counter and the read queue
  are unchanged, and a call that gets to the payload (no graceful destroy, no error in the
  state part) returns the invalid-length or invalid-port error. For a valid payload that the
  call gets to, \<open>packetsRecv\<close> goes up by exactly 1 and \<open>seqnoRecv\<close> becomes the payload's
  seqno when that is larger and stays as it is otherwise, so it never goes down.
\<close>

theorem Process_DeliverUDP:
  assumes dec: "decryptRecvPayload c (payloadKeys t) payload = Some (DeliverUDP p)"
      and run: "Process c now t payload (StateMeta st) = (err, t')"
  shows "((length (du_IP p) \<noteq> 4 \<and> length (du_IP p) \<noteq> 16) \<or> du_Port p > 0xFFFF \<longrightarrow>
            packetsRecv t' = packetsRecv t \<and> seqnoRecv t' = seqnoRecv t
            \<and> packetsRecvPaidConsumed t' = packetsRecvPaidConsumed t
            \<and> packetsConsumedIn t' = packetsConsumedIn t
            \<and> packetsConsumedOut t' = packetsConsumedOut t
            \<and> packetsMinPaidIn t' = packetsMinPaidIn t
            \<and> packetsMinPaidOut t' = packetsMinPaidOut t
            \<and> packetsDropped t' = packetsDropped t \<and> read t' = read t)
    \<and> (\<not> (st = StateTypeDestroyed \<and> wantDestroy t \<noteq> 0)
         \<and> fst (processState c now t st) = None \<longrightarrow>
          (if (length (du_IP p) \<noteq> 4 \<and> length (du_IP p) \<noteq> 16) \<or> du_Port p > 0xFFFF
           then err = Some (InvalidIPLen (length (du_IP p))) \<or> err = Some (InvalidPort (du_Port p))
           else packetsRecv t' = packetsRecv t + 1
              \<and> seqnoRecv t \<le> seqnoRecv t'
              \<and> seqnoRecv t' = (if seqnoRecv t < du_Seqno p then du_Seqno p else seqnoRecv t)))"
proof -
  let ?bad = "(length (du_IP p) \<noteq> 4 \<and> length (du_IP p) \<noteq> 16) \<or> du_Port p > 0xFFFF"
  from Process_StateMeta_cases [OF dec run]
  consider (destroy) "st = StateTypeDestroyed \<and> wantDestroy t \<noteq> 0" "t' = t\<lparr>closed := True\<rparr>"
    | (early) e where "\<not> (st = StateTypeDestroyed \<and> wantDestroy t \<noteq> 0)"
        "processState c now t st = (Some e, t')"
    | (payload) t1 where "\<not> (st = StateTypeDestroyed \<and> wantDestroy t \<noteq> 0)"
        "processState c now t st = (None, t1)" "processPayload t1 (DeliverUDP p) = (err, t')"
    by blast
  then show ?thesis
  proof cases
    case destroy
    then show ?thesis by simp
  next
    case early
    from processState_frame [OF early(2)] early show ?thesis by simp
  next
    case payload
    note fr = processState_frame [OF payload(2)]
    have d: "deliverUDP t1 p = (err, t')" using payload(3) by (simp add: processPayload_def)
    show ?thesis
    proof (cases ?bad)
      case True
      from deliverUDP_invalid [OF True, of t1] d
      have "t' = t1" "err = Some (InvalidIPLen (length (du_IP p))) \<or> err = Some (InvalidPort (du_Port p))"
        by auto
      with fr True show ?thesis by simp
    next
      case False
      then have v: "length (du_IP p) = 4 \<or> length (du_IP p) = 16" "du_Port p \<le> 0xFFFF"
        by auto
      from deliverUDP_valid [OF v d] fr False show ?thesis by auto
    qed
  qed
qed


theorem Process_DeliverUDP_witness:
  "Process (delivering (DeliverUDP sampleDelivery)) 2000 sampleTunnel [] (StateMeta StateTypeOptimized)
     = (None, sampleTunnel\<lparr>packetsRecv := 41, seqnoRecv := 45, packetsRecvPaidConsumed := 45,
                packetsConsumedIn := 45, sendControlSignal := True, read := [sampleDelivery]\<rparr>)
   \<and> packetsRecv sampleTunnel + 1 = 41 \<and> seqnoRecv sampleTunnel \<le> 45
   \<and> Process (delivering (DeliverUDP (sampleDelivery\<lparr>du_IP := [1, 2, 3, 4, 5]\<rparr>))) 2000 sampleTunnel []
        (StateMeta StateTypeOptimized)
     = (Some (InvalidIPLen 5), sampleTunnel)"
proof -
  let ?c1 = "delivering (DeliverUDP sampleDelivery)"
  let ?bad = "sampleDelivery\<lparr>du_IP := [1, 2, 3, 4, 5]\<rparr>"
  let ?c2 = "delivering (DeliverUDP ?bad)"
  let ?r1 = "Process ?c1 2000 sampleTunnel [] (StateMeta StateTypeOptimized)"
  let ?r2 = "Process ?c2 2000 sampleTunnel [] (StateMeta StateTypeOptimized)"
  have d1: "decryptRecvPayload ?c1 (payloadKeys sampleTunnel) [] = Some (DeliverUDP sampleDelivery)"
    by (simp add: delivering_def)
  have d2: "decryptRecvPayload ?c2 (payloadKeys sampleTunnel) [] = Some (DeliverUDP ?bad)"
    by (simp add: delivering_def)
  have e1: "?r1 = (fst ?r1, snd ?r1)" and e2: "?r2 = (fst ?r2, snd ?r2)" by simp_all
  have v1: "?r1 = (None, sampleTunnel\<lparr>packetsRecv := 41, seqnoRecv := 45,
                packetsRecvPaidConsumed := 45, packetsConsumedIn := 45,
                sendControlSignal := True, read := [sampleDelivery]\<rparr>)"
    by (simp add: Process_def processState_def processPayload_def deliverUDP_def delivering_def
        sampleCollaborators_def sampleTunnel_def sampleDelivery_def CompareAndSwap_def
        requestControlMessage_def readCapacity_def i64_quo_def word_sless_alt Let_def
        StateTypeOptimized_def StateTypeDestroyed_def)
  have v2: "?r2 = (Some (InvalidIPLen 5), sampleTunnel)"
    by (simp add: Process_def processState_def processPayload_def deliverUDP_def delivering_def
        sampleCollaborators_def sampleTunnel_def sampleDelivery_def Let_def
        StateTypeOptimized_def StateTypeDestroyed_def)
  from Process_DeliverUDP [OF d1 e1] Process_DeliverUDP [OF d2 e2] v1 v2
  show ?thesis by (simp add: sampleTunnel_def)
qed

text \<open>
  Claim C8, as stated, at two calls that return before the payload is looked at. The echo of
  a destroy (\<open>StateMeta{Destroyed}\<close> with \<open>wantDestroy\<close> set) carrying a payload with a
  5-byte IP closes the tunnel and returns no error. A \<open>StateMeta{Configuring}\<close> at a
  Configuring tunnel whose init message the peer refuses returns that send error, and the valid
  payload it carried is not counted: \<open>packetsRecv\<close> stays as it was.
\<close>

theorem Process_DeliverUDP_early_return:
  "Process (delivering (DeliverUDP (sampleDelivery\<lparr>du_IP := [1, 2, 3, 4, 5]\<rparr>))) 2000
      (sampleTunnel\<lparr>wantDestroy := 1\<rparr>) [] (StateMeta StateTypeDestroyed)
     = (None, sampleTunnel\<lparr>wantDestroy := 1, closed := True\<rparr>)
   \<and> Process (unsendable (DeliverUDP sampleDelivery)) 2000
      (sampleTunnel\<lparr>tunnelState := StateTypeConfiguring\<rparr>) [] (StateMeta StateTypeConfiguring)
     = (Some (SendInitFailed ErrOther), sampleTunnel\<lparr>tunnelState := StateTypeOptimizingRoutes\<rparr>)
   \<and> length (du_IP sampleDelivery) = 4 \<and> du_Port sampleDelivery \<le> 0xFFFF
   \<and> packetsRecv (sampleTunnel\<lparr>tunnelState := StateTypeOptimizingRoutes\<rparr>)
       = packetsRecv sampleTunnel"
  by (simp add: Process_def processState_def prepareInitMessage_def CompareAndSwap_def
      delivering_def unsendable_def sampleCollaborators_def sampleTunnel_def sampleDelivery_def
      Let_def StateTypeOptimized_def StateTypeDestroyed_def StateTypeConfiguring_def
      StateTypeOptimizingRoutes_def)

lemma ucast_port_eq: "uint (a :: u16) = uint (b :: u32) \<Longrightarrow> a = ucast b"
  by (metis ucast_eq word_of_int_uint)

lemma ipEqual_refl: "ipEqual x x"
  by (simp add: ipEqual_def)

lemma outBindDone_fields:
  assumes "outBindDone t p = (err, t')"
  shows "err = None
     \<and> seqnoRecv t' = (if seqnoRecv t > ob_Seqno p then ob_Seqno p else seqnoRecv t)
     \<and> (if ipEqual (externalAddr t) (ob_IP p) \<and> externalPort t = ucast (ob_Port p)
         then externalAddr t' = externalAddr t \<and> externalPort t' = externalPort t
              \<and> handlerCalls t' = handlerCalls t
         else externalAddr t' = ob_IP p \<and> externalPort t' = ucast (ob_Port p)
              \<and> handlerCalls t' =
                  (if onOutAddressChanged t then handlerCalls t @ [(ob_IP p, uint (ob_Port p))]
                   else handlerCalls t))"
  using assms by (auto simp: outBindDone_def Let_def split: if_splits)

text \<open>
  Claim C9, as amended. Take any call of \<open>Process\<close> with a \<open>StateMeta\<close> whose payload decrypts to an
  \<open>OutBindDonePayload\<close>. The stored external address, the stored port and the list of
  handler calls change only when the delivered (ip, port) pair differs from the stored pair.
  A call that gets to the payload returns no error; it sets \<open>seqnoRecv\<close> to the payload's
  seqno when \<open>seqnoRecv\<close> was greater, and leaves it otherwise; when the stored address equals
  the delivered one (by \<open>net.IP.Equal\<close>) and the stored port equals the delivered port cut to
  16 bits, address, port and handler calls are unchanged; otherwise address and port are
  overwritten and the handler, if one is installed, is called once with the delivered pair.
\<close>

theorem Process_OutBindDone:
  assumes dec: "decryptRecvPayload c (payloadKeys t) payload = Some (OutBindDone p)"
      and run: "Process c now t payload (StateMeta st) = (err, t')"
  shows "(externalAddr t' \<noteq> externalAddr t \<or> externalPort t' \<noteq> externalPort t
            \<or> handlerCalls t' \<noteq> handlerCalls t \<longrightarrow>
          (externalAddr t, uint (externalPort t)) \<noteq> (ob_IP p, uint (ob_Port p)))
    \<and> (\<not> (st = StateTypeDestroyed \<and> wantDestroy t \<noteq> 0)
         \<and> fst (processState c now t st) = None \<longrightarrow>
          err = None
          \<and> seqnoRecv t' = (if seqnoRecv t > ob_Seqno p then ob_Seqno p else seqnoRecv t)
          \<and> (if ipEqual (externalAddr t) (ob_IP p) \<and> externalPort t = ucast (ob_Port p)
              then externalAddr t' = externalAddr t \<and> externalPort t' = externalPort t
                   \<and> handlerCalls t' = handlerCalls t
              else externalAddr t' = ob_IP p \<and> externalPort t' = ucast (ob_Port p)
                   \<and> handlerCalls t' =
                       (if onOutAddressChanged t
                        then handlerCalls t @ [(ob_IP p, uint (ob_Port p))]
                        else handlerCalls t)))"
proof -
  from Process_StateMeta_cases [OF dec run]
  consider (destroy) "st = StateTypeDestroyed \<and> wantDestroy t \<noteq> 0" "t' = t\<lparr>closed := True\<rparr>"
    | (early) e where "\<not> (st = StateTypeDestroyed \<and> wantDestroy t \<noteq> 0)"
        "processState c now t st = (Some e, t')"
    | (payload) t1 where "\<not> (st = StateTypeDestroyed \<and> wantDestroy t \<noteq> 0)"
        "processState c now t st = (None, t1)" "processPayload t1 (OutBindDone p) = (err, t')"
    by blast
  then show ?thesis
  proof cases
    case destroy
    then show ?thesis by simp
  next
    case early
    from processState_frame [OF early(2)] early show ?thesis by simp
  next
    case payload
    note fr = processState_frame [OF payload(2)]
    have d: "outBindDone t1 p = (err, t')" using payload(3) by (simp add: processPayload_def)
    note f = outBindDone_fields [OF d]
    have same: "(externalAddr t, uint (externalPort t)) = (ob_IP p, uint (ob_Port p)) \<Longrightarrow>
        ipEqual (externalAddr t) (ob_IP p) \<and> externalPort t = ucast (ob_Port p)"
      using ipEqual_refl ucast_port_eq by auto
    show ?thesis
    proof (cases "ipEqual (externalAddr t) (ob_IP p) \<and> externalPort t = ucast (ob_Port p)")
      case True
      with f fr show ?thesis by simp
    next
      case False
      with same have "(externalAddr t, uint (externalPort t)) \<noteq> (ob_IP p, uint (ob_Port p))"
        by blast
      with f fr False show ?thesis by auto
    qed
  qed
qed

theorem Process_OutBindDone_witness:
  "Process (delivering (OutBindDone sampleBindDone)) 2000 sampleTunnel [] (StateMeta StateTypeOptimized)
     = (None, sampleTunnel\<lparr>seqnoRecv := 0, externalAddr := [198, 51, 100, 9], externalPort := 4000,
                handlerCalls := [([198, 51, 100, 9], 4000)]\<rparr>)
   \<and> seqnoRecv sampleTunnel = 42
   \<and> Process (delivering (OutBindDone \<lparr>ob_Seqno = 50, ob_IP = [203, 0, 113, 7], ob_Port = 51820\<rparr>))
        2000 sampleTunnel [] (StateMeta StateTypeOptimized)
     = (None, sampleTunnel)"
proof -
  let ?p2 = "\<lparr>ob_Seqno = 50, ob_IP = [203, 0, 113, 7], ob_Port = 51820\<rparr>"
  let ?c1 = "delivering (OutBindDone sampleBindDone)"
  let ?c2 = "delivering (OutBindDone ?p2)"
  let ?r1 = "Process ?c1 2000 sampleTunnel [] (StateMeta StateTypeOptimized)"
  let ?r2 = "Process ?c2 2000 sampleTunnel [] (StateMeta StateTypeOptimized)"
  have d1: "decryptRecvPayload ?c1 (payloadKeys sampleTunnel) [] = Some (OutBindDone sampleBindDone)"
    by (simp add: delivering_def)
  have d2: "decryptRecvPayload ?c2 (payloadKeys sampleTunnel) [] = Some (OutBindDone ?p2)"
    by (simp add: delivering_def)
  have e1: "?r1 = (fst ?r1, snd ?r1)" and e2: "?r2 = (fst ?r2, snd ?r2)" by simp_all
  have v1: "?r1 = (None, sampleTunnel\<lparr>seqnoRecv := 0, externalAddr := [198, 51, 100, 9],
                externalPort := 4000, handlerCalls := [([198, 51, 100, 9], 4000)]\<rparr>)"
    by (simp add: Process_def processState_def processPayload_def outBindDone_def delivering_def
        sampleCollaborators_def sampleTunnel_def sampleBindDone_def ipEqual_def Let_def
        StateTypeOptimized_def StateTypeDestroyed_def)
  have v2: "?r2 = (None, sampleTunnel)"
    by (simp add: Process_def processState_def processPayload_def outBindDone_def delivering_def
        sampleCollaborators_def sampleTunnel_def ipEqual_def Let_def
        StateTypeOptimized_def StateTypeDestroyed_def)
  from Process_OutBindDone [OF d1 e1] Process_OutBindDone [OF d2 e2] v1 v2
  show ?thesis by (simp add: sampleTunnel_def)
qed

text \<open>
  Claim C9, as stated, at a call that returns before the payload is looked at: a
  \<open>StateMeta{Configuring}\<close> at a Configuring tunnel whose init message the peer refuses. The
  payload's seqno is 0 and \<open>seqnoRecv\<close> is 42, yet \<open>seqnoRecv\<close> is not reset.
\<close>

theorem Process_OutBindDone_early_return:
  "Process (unsendable (OutBindDone sampleBindDone)) 2000
      (sampleTunnel\<lparr>tunnelState := StateTypeConfiguring\<rparr>) [] (StateMeta StateTypeConfiguring)
     = (Some (SendInitFailed ErrOther), sampleTunnel\<lparr>tunnelState := StateTypeOptimizingRoutes\<rparr>)
   \<and> seqnoRecv (sampleTunnel\<lparr>tunnelState := StateTypeConfiguring\<rparr>) = 42
   \<and> ob_Seqno sampleBindDone = 0
   \<and> seqnoRecv (sampleTunnel\<lparr>tunnelState := StateTypeOptimizingRoutes\<rparr>) = 42"
  by (simp add: Process_def processState_def prepareInitMessage_def CompareAndSwap_def
      delivering_def unsendable_def sampleCollaborators_def sampleTunnel_def sampleBindDone_def
      Let_def StateTypeOptimized_def StateTypeDestroyed_def StateTypeConfiguring_def
      StateTypeOptimizingRoutes_def)

text \<open>
  Claim C7. The \<open>StateTypeOptimizingRoutes\<close> case first stores Optimized and then
  compare-and-swaps OptimizingRoutes for Optimized. The swap finds Optimized, so it fails, and
  the branch under it (the log line and \<open>requestControlMessage\<close>) does not run: below, the
  state part leaves the signal channel as it was.
\<close>

lemma processState_OptimizingRoutes:
  "tunnelState t < StateTypeOptimized \<Longrightarrow>
   processState c now t StateTypeOptimizingRoutes
     = (None, t\<lparr>tunnelState := StateTypeOptimized, lastFullyCheckedAt := now\<rparr>)"
  by (simp add: processState_def CompareAndSwap_def Let_def StateTypeOptimized_def
      StateTypeOptimizingRoutes_def StateTypeConfiguring_def)

text \<open>
  Claim C7, at a tunnel in state OptimizingRoutes with an empty signal channel that receives
  \<open>StateMeta{OptimizingRoutes}\<close>: the state becomes Optimized, the compare-and-swap does not
  swap, and no control message is requested.
\<close>

theorem Process_OptimizingRoutes_run:
  "Process (delivering (OutBindDone \<lparr>ob_Seqno = 50, ob_IP = [203, 0, 113, 7], ob_Port = 51820\<rparr>))
      2000 (sampleTunnel\<lparr>tunnelState := StateTypeOptimizingRoutes\<rparr>) []
      (StateMeta StateTypeOptimizingRoutes)
    = (None, sampleTunnel\<lparr>tunnelState := StateTypeOptimized, lastFullyCheckedAt := 2000\<rparr>)
   \<and> sendControlSignal (sampleTunnel\<lparr>tunnelState := StateTypeOptimized, lastFullyCheckedAt := 2000\<rparr>)
       = False
   \<and> fst (CompareAndSwap (tunnelState (sampleTunnel\<lparr>tunnelState := StateTypeOptimized\<rparr>))
             StateTypeOptimizingRoutes StateTypeOptimized) = False"
  by (simp add: Process_def processState_def processPayload_def outBindDone_def delivering_def
        sampleCollaborators_def sampleTunnel_def ipEqual_def Let_def CompareAndSwap_def
        StateTypeOptimized_def StateTypeDestroyed_def StateTypeOptimizingRoutes_def
        StateTypeConfiguring_def)

section \<open>Properties of buildTunnelPaymentsChain\<close>

lemma cumulativeFees_length: "length (cumulativeFees cf ps x) = length ps + 1"
  by (induction ps) (simp_all add: Let_def)

lemma newCapacity_le_start: "newCapacity ps cs a \<le> a"
proof (induction ps cs a rule: newCapacity.induct)
  case (1 s ss c cs newX)
  then show ?case by (simp add: Let_def split: if_splits)
qed simp_all

lemma newCapacity_le_allowed:
  "i < length ps \<Longrightarrow> i < length cs \<Longrightarrow> newCapacity ps cs a \<le> MaxCapacity (ps ! i) - cs ! i"
proof (induction ps cs a arbitrary: i rule: newCapacity.induct)
  case (1 s ss c cs newX)
  show ?case
  proof (cases i)
    case 0
    have "newCapacity (s # ss) (c # cs) newX \<le>
        (let allowed = MaxCapacity s - c in if allowed < newX then allowed else newX)"
      by (simp add: newCapacity_le_start)
    also have "\<dots> \<le> MaxCapacity s - c" by (simp add: Let_def)
    finally show ?thesis using 0 by simp
  next
    case (Suc j)
    with 1 show ?thesis by simp
  qed
qed simp_all

lemma round_good:
  "chainGood ps init (newCapacity ps (tl (cumulativeFees cf ps x)) init) (cumulativeFees cf ps x)"
proof -
  let ?cum = "cumulativeFees cf ps x"
  have len: "length ?cum = length ps + 1" by (rule cumulativeFees_length)
  have "\<forall>i < length ps. newCapacity ps (tl ?cum) init + ?cum ! (i + 1) \<le> MaxCapacity (ps ! i)"
  proof (intro allI impI)
    fix i assume i: "i < length ps"
    then have "i < length (tl ?cum)" using len by simp
    from newCapacity_le_allowed [OF i this, of init]
    have "newCapacity ps (tl ?cum) init \<le> MaxCapacity (ps ! i) - tl ?cum ! i" .
    moreover have "tl ?cum ! i = ?cum ! (i + 1)"
      using i len by (simp add: nth_tl)
    ultimately show "newCapacity ps (tl ?cum) init + ?cum ! (i + 1) \<le> MaxCapacity (ps ! i)"
      by simp
  qed
  then show ?thesis
    by (simp add: chainGood_def len newCapacity_le_start)
qed

lemma chainRounds_good:
  "k > 0 \<or> chainGood ps init x cum \<Longrightarrow>
   chainRounds cf ps init k x cum d = (x', cum', d') \<Longrightarrow>
   chainGood ps init x' cum' \<and> d' \<le> d + k \<and> d \<le> d' \<and> (k > 0 \<longrightarrow> d < d')"
proof (induction k arbitrary: x cum d)
  case 0
  then show ?case by simp
next
  case (Suc k)
  let ?cum = "cumulativeFees cf ps x"
  let ?nx = "newCapacity ps (tl ?cum) init"
  have g: "chainGood ps init ?nx ?cum" by (rule round_good)
  show ?case
  proof (cases "?nx = x")
    case True
    with Suc.prems(2) have "x' = x" "cum' = ?cum" "d' = Suc d" by (auto simp: Let_def)
    with g True show ?thesis by simp
  next
    case False
    with Suc.prems(2) have r: "chainRounds cf ps init k ?nx ?cum (Suc d) = (x', cum', d')"
      by (simp add: Let_def)
    from Suc.IH [OF _ r] g show ?thesis by auto
  qed
qed

lemma chainFixpoint_good:
  assumes "chainFixpoint cf ps init = (x, cum, rounds)"
  shows "chainGood ps init x cum \<and> 1 \<le> rounds \<and> rounds \<le> 10"
  using chainRounds_good [of maxIter ps init init "replicate (length ps + 1) 0" cf 0 x cum rounds]
    assms
  by (auto simp: chainFixpoint_def maxIter_def)

lemma chainParts_length:
  "length cum = length ps + 1 \<Longrightarrow> length (chainParts ps cum x base h) = length ps"
proof (induction ps cum x base h rule: chainParts.induct)
  case (1 s ss c c' cs x base hopTTL)
  then show ?case by simp
qed simp_all

lemma chainParts_nth:
  "length cum = length ps + 1 \<Longrightarrow> i < length ps \<Longrightarrow>
   chainParts ps cum x base h ! i =
     \<lparr>Target = pts_Key (ps ! i), tcp_Capacity = x + cum ! (i + 1), Fee = cum ! i,
      Deadline = base + int (length ps - i) * h\<rparr>"
proof (induction ps cum x base h arbitrary: i rule: chainParts.induct)
  case (1 s ss c c' cs x base hopTTL)
  then show ?case by (cases i) simp_all
qed simp_all

text \<open>
  Claim C2. For a non-empty list of payment sections, any initial capacity and any candidate
  fee arithmetic, let \<open>x\<close>, \<open>cum\<close> and \<open>rounds\<close> be the capacity, the cumulative fees and
  the number of rounds the fixed-point loop ends with. Then at most 10 rounds were run; the
  builder returns the insufficient-capacity error exactly when \<open>x\<close> is negative; and when it
  returns a chain, \<open>0 \<le> x \<le> initialCapacity\<close> and for every hop \<open>i\<close> the required capacity
  \<open>x + cum[i+1]\<close>, which is the capacity written into the chain part of hop \<open>i\<close>, does
  not exceed that hop's \<open>MaxCapacity\<close>.
\<close>

theorem buildTunnelPaymentsChain_capacity:
  assumes ne: "paymentTunnel \<noteq> []"
      and fp: "chainFixpoint cf paymentTunnel initialCapacity = (x, cum, rounds)"
  shows "rounds \<le> 10
    \<and> (buildTunnelPaymentsChain cf now paymentTunnel initialCapacity baseTTL hopTTL
          = Inl InsufficientCapacity \<longleftrightarrow> x < 0)
    \<and> (\<forall>chain. buildTunnelPaymentsChain cf now paymentTunnel initialCapacity baseTTL hopTTL
                  = Inr chain \<longrightarrow>
          0 \<le> x \<and> x \<le> initialCapacity \<and> length chain = length paymentTunnel
          \<and> (\<forall>i < length paymentTunnel.
                x + cum ! (i + 1) \<le> MaxCapacity (paymentTunnel ! i)
                \<and> tcp_Capacity (chain ! i) = x + cum ! (i + 1)
                \<and> Fee (chain ! i) = cum ! i))"
proof -
  from chainFixpoint_good [OF fp]
  have g: "chainGood paymentTunnel initialCapacity x cum" and r: "rounds \<le> 10" by simp_all
  then have len: "length cum = length paymentTunnel + 1" by (simp add: chainGood_def)
  have b: "buildTunnelPaymentsChain cf now paymentTunnel initialCapacity baseTTL hopTTL =
      (if x < 0 then Inl InsufficientCapacity
       else Inr (chainParts paymentTunnel cum x (now + baseTTL) hopTTL))"
    using ne fp by (simp add: buildTunnelPaymentsChain_def)
  show ?thesis
    using r g b len
    by (auto simp: chainGood_def chainParts_length chainParts_nth)
qed

theorem buildTunnelPaymentsChain_capacity_witness:
  "chainFixpoint exactFee sampleSections 60000 = (40000, [602, 400, 0], 2)
   \<and> buildTunnelPaymentsChain exactFee 1000 sampleSections 60000 3600 10
       = Inr [\<lparr>Target = [1], tcp_Capacity = 40400, Fee = 602, Deadline = 4620\<rparr>,
              \<lparr>Target = [2], tcp_Capacity = 40000, Fee = 400, Deadline = 4610\<rparr>]
   \<and> (2::nat) \<le> 10 \<and> (0::int) \<le> 40000 \<and> (40000::int) \<le> 60000
   \<and> (40000::int) + 400 \<le> 50000 \<and> (40000::int) + 0 \<le> 40000"
proof -
  have ne: "sampleSections \<noteq> []" by (simp add: sampleSections_def)
  have fp: "chainFixpoint exactFee sampleSections 60000 = (40000, [602, 400, 0], 2)"
    by (simp add: chainFixpoint_def maxIter_def sampleSections_def exactFee_def Let_def
        eval_nat_numeral)
  have b: "buildTunnelPaymentsChain exactFee 1000 sampleSections 60000 3600 10
       = Inr [\<lparr>Target = [1], tcp_Capacity = 40400, Fee = 602, Deadline = 4620\<rparr>,
              \<lparr>Target = [2], tcp_Capacity = 40000, Fee = 400, Deadline = 4610\<rparr>]"
    using fp by (simp add: buildTunnelPaymentsChain_def sampleSections_def)
  from buildTunnelPaymentsChain_capacity [OF ne fp, of 1000 3600 10] fp b
  show ?thesis by simp
qed

section \<open>Properties of ReassembleInstructions\<close>






section \<open>Properties of the payment controller\<close>

lemma resendOrDiscard_unconfirmed:
  assumes "LatestInstruction p = Some li" and "LatestPaidOnSeqno p > paidSeqnoReceived"
  shows "resendOrDiscard now paidSeqnoReceived p =
     (if LatestChannelDeadline p > now then (p, [PaymentInstr li], True)
      else (p\<lparr>LatestInstruction := None, PaidPackets := PaidPackets p - LatestPacketsPaid p\<rparr>,
            [], False))"
  using assms by (simp add: resendOrDiscard_def)

lemma payHop_no_resend:
  "resendOrDiscard now psr p = (p1, [], False) \<Longrightarrow>
   payHop svc now psr toPrepay force outGate routeId i consumed p
     = mintPayment svc now toPrepay force outGate routeId i consumed p1"
  by (cases "mintPayment svc now toPrepay force outGate routeId i consumed p1")
     (auto simp: payHop_def split: sum.splits prod.splits)

text \<open>
  Claim C5. Take the payment part of a hop while a control message with payments is prepared,
  for a paying hop (price above 0) that has a latest instruction sent with a control seqno
  above \<open>controlPaidSeqnoReceived\<close>. If the latest channel deadline is in the future, the
  result is the stored instruction alone, with the payer as it was and no mutation queued,
  whatever the payment service would answer: nothing is opened or signed. If the deadline has
  passed, the result is that of minting a payment for the payer with \<open>LatestInstruction\<close>
  cleared and \<open>PaidPackets\<close> lowered by \<open>LatestPacketsPaid\<close>: the decrement comes before
  the new payment.
\<close>

theorem hopPayments_unconfirmed:
  assumes price: "PricePerPacket p > 0"
      and latest: "LatestInstruction p = Some li"
      and unconfirmed: "LatestPaidOnSeqno p > controlPaidSeqnoReceived t"
  shows "(LatestChannelDeadline p > now \<longrightarrow>
            hopPayments svc now t True forcePayments routeId i (Some p)
              = Some (Some p, Inr ([PaymentInstr li], None)))
    \<and> (\<not> LatestChannelDeadline p > now \<longrightarrow>
            hopPayments svc now t True forcePayments routeId i (Some p)
              = map_option (\<lambda>(p', r). (Some p', r))
                  (mintPayment (svc i) now (packetsToPrepay t) forcePayments
                     (Suc i = length (chainTo t)) routeId i
                     (hopConsumed (packetsConsumedOut t) (packetsConsumedIn t)
                        (length (chainTo t)) i)
                     (p\<lparr>LatestInstruction := None,
                        PaidPackets := PaidPackets p - LatestPacketsPaid p\<rparr>)))"
proof (intro conjI impI)
  assume d: "LatestChannelDeadline p > now"
  with resendOrDiscard_unconfirmed [OF latest unconfirmed, of now]
  have "resendOrDiscard now (controlPaidSeqnoReceived t) p = (p, [PaymentInstr li], True)"
    by simp
  then show "hopPayments svc now t True forcePayments routeId i (Some p)
              = Some (Some p, Inr ([PaymentInstr li], None))"
    using price by (simp add: hopPayments_def payHop_def)
next
  let ?p' = "p\<lparr>LatestInstruction := None, PaidPackets := PaidPackets p - LatestPacketsPaid p\<rparr>"
  assume d: "\<not> LatestChannelDeadline p > now"
  with resendOrDiscard_unconfirmed [OF latest unconfirmed, of now]
  have "resendOrDiscard now (controlPaidSeqnoReceived t) p = (?p', [], False)"
    by simp
  from payHop_no_resend [OF this]
  show "hopPayments svc now t True forcePayments routeId i (Some p)
              = map_option (\<lambda>(p', r). (Some p', r))
                  (mintPayment (svc i) now (packetsToPrepay t) forcePayments
                     (Suc i = length (chainTo t)) routeId i
                     (hopConsumed (packetsConsumedOut t) (packetsConsumedIn t)
                        (length (chainTo t)) i) ?p')"
    using price by (simp add: hopPayments_def split: option.splits)
qed


lemma sample_await: "awaitChannel (GetVirtualChannelMeta sampleService) 0 = Some None"
  by (simp add: awaitChannel.simps sampleService_def)

lemma sample_chain:
  "buildTunnelPaymentsChain exactFee 1000 sampleSections 60000000 oneHour 10
     = Inr [\<lparr>Target = [1], tcp_Capacity = 40400, Fee = 602, Deadline = 3600000001020\<rparr>,
            \<lparr>Target = [2], tcp_Capacity = 40000, Fee = 400, Deadline = 3600000001010\<rparr>]"
  by (simp add: buildTunnelPaymentsChain_def chainFixpoint_def maxIter_def sampleSections_def
      exactFee_def oneHour_def Let_def eval_nat_numeral)

lemma sample_open:
  "PaymentTunnel p = sampleSections \<Longrightarrow>
   openVirtualChannel sampleService 1000 p 60000000
     = Some (p\<lparr>PaidChannelFee := Some ((case PaidChannelFee p of None \<Rightarrow> 0 | Some f \<Rightarrow> f) + 602)\<rparr>,
             Inr \<lparr>vc_Key = [5, 5], LastAmount = 0, Capacity = 40000,
                  SafeDeadline = 3600000001000\<rparr>)"
  using sample_chain sample_await
  by (simp add: openVirtualChannel_def sampleService_def)

lemma sample_mint:
  "mintPayment sampleService 1000 200000 False True routeId 0 42 discarded
     = Some (discarded\<lparr>PaidChannelFee := Some 1204,
               CurrentChannel := Some \<lparr>vc_Key = [5, 5], LastAmount = 0, Capacity = 40000,
                                        SafeDeadline = 3600000001000\<rparr>\<rparr>,
             Inr ([PaymentInstr mintedInstruction],
                  Some \<lparr>mu_hop = 0, payFor = 4000, mu_pi = mintedInstruction,
                        stateAmount = 40000, isFinal = True\<rparr>))"
proof -
  have pt: "PaymentTunnel discarded = sampleSections"
    by (simp add: discarded_def samplePayer_def)
  have o: "openVirtualChannel sampleService 1000 discarded 60000000
     = Some (discarded\<lparr>PaidChannelFee := Some 1204\<rparr>,
             Inr \<lparr>vc_Key = [5, 5], LastAmount = 0, Capacity = 40000,
                  SafeDeadline = 3600000001000\<rparr>)"
    using sample_open [OF pt] by (simp add: discarded_def samplePayer_def)
  have f: "PricePerPacket discarded = 10" "PaidPackets discarded = 50000"
      "LatestInstruction discarded = None"
      "CurrentChannel discarded
        = Some \<lparr>vc_Key = [4, 4], LastAmount = 7000, Capacity = 40000, SafeDeadline = 500\<rparr>"
    by (simp_all add: discarded_def samplePayer_def)
  have sv: "stateToCell sampleService = (\<lambda>k a. Some [1])"
      "AddVirtualChannelResolve sampleService = (\<lambda>k a. True)"
      "PublicKey sampleService = rev" "PaymentPurposeOut sampleService = 1"
    by (simp_all add: sampleService_def)
  show ?thesis
    unfolding mintPayment_def
    by (simp add: f sv o Let_def i64_quo_def word_sless_alt word_sle_eq mintedInstruction_def
        ChannelCapacityForNumPayments_def)
qed


theorem hopPayments_unconfirmed_witness:
  "hopPayments (\<lambda>i. sampleService) 400 payingTunnel True False 7 0 (Some samplePayer)
     = Some (Some samplePayer, Inr ([PaymentInstr sampleInstruction], None))
   \<and> hopPayments (\<lambda>i. sampleService) 1000 payingTunnel True False 7 0 (Some samplePayer)
     = Some (Some (discarded\<lparr>PaidChannelFee := Some 1204,
                     CurrentChannel := Some \<lparr>vc_Key = [5, 5], LastAmount = 0, Capacity = 40000,
                                              SafeDeadline = 3600000001000\<rparr>\<rparr>),
             Inr ([PaymentInstr mintedInstruction],
                  Some \<lparr>mu_hop = 0, payFor = 4000, mu_pi = mintedInstruction,
                        stateAmount = 40000, isFinal = True\<rparr>))
   \<and> PaidPackets discarded = PaidPackets samplePayer - LatestPacketsPaid samplePayer
   \<and> LatestInstruction discarded = None"
proof -
  have price: "PricePerPacket samplePayer > 0"
    and latest: "LatestInstruction samplePayer = Some sampleInstruction"
    and unconfirmed: "LatestPaidOnSeqno samplePayer > controlPaidSeqnoReceived payingTunnel"
    by (simp_all add: samplePayer_def payingTunnel_def sampleTunnel_def)
  have d: "samplePayer\<lparr>LatestInstruction := None,
              PaidPackets := PaidPackets samplePayer - LatestPacketsPaid samplePayer\<rparr> = discarded"
    by (simp add: discarded_def samplePayer_def)
  have t: "packetsToPrepay payingTunnel = 200000" "length (chainTo payingTunnel) = Suc 0"
      "hopConsumed (packetsConsumedOut payingTunnel) (packetsConsumedIn payingTunnel) (Suc 0) 0 = 42"
    by (simp_all add: payingTunnel_def sampleTunnel_def hopConsumed_def word_sless_alt)
  have future: "LatestChannelDeadline samplePayer > 400"
    and past: "\<not> LatestChannelDeadline samplePayer > 1000"
    by (simp_all add: samplePayer_def)
  from hopPayments_unconfirmed [OF price latest unconfirmed, of 400 "\<lambda>i. sampleService" False 7 0]
    hopPayments_unconfirmed [OF price latest unconfirmed, of 1000 "\<lambda>i. sampleService" False 7 0]
    future past
  show ?thesis
    by (simp add: d t sample_mint) (simp add: discarded_def samplePayer_def)
qed

section \<open>Payment mutations of one control message\<close>

text \<open>
  The payment part of a hop writes into the payer in two places only: the drop of an expired
  unconfirmed payment, and the channel it opens. These lemmas carry that through the hop and
  through the loop.
\<close>

lemma payerKept_refl: "payerKept psr now p p"
  by (simp add: payerKept_def)

lemma sectionKept_refl: "sectionKept psr now s s"
  by (simp add: sectionKept_def payerKept_refl split: option.splits)

lemma resendOrDiscard_kept:
  "resendOrDiscard now psr p = (p1, ins, skip) \<Longrightarrow>
     payerKept psr now p p1 \<and> CurrentChannel p1 = CurrentChannel p"
  by (auto simp: resendOrDiscard_def payerKept_def split: option.splits if_splits)

lemma openVirtualChannel_frame:
  "openVirtualChannel svc now p cap = Some (p1, r) \<Longrightarrow>
     PaymentTunnel p1 = PaymentTunnel p \<and> PricePerPacket p1 = PricePerPacket p
     \<and> PaidPackets p1 = PaidPackets p \<and> CurrentChannel p1 = CurrentChannel p
     \<and> LatestChannelDeadline p1 = LatestChannelDeadline p
     \<and> LatestPaidOnSeqno p1 = LatestPaidOnSeqno p
     \<and> LatestInstruction p1 = LatestInstruction p
     \<and> LatestPacketsPaid p1 = LatestPacketsPaid p
     \<and> (\<forall>ch. r = Inr ch \<longrightarrow> LastAmount ch = 0)"
  by (auto simp: openVirtualChannel_def Let_def split: sum.splits option.splits if_splits)

lemma mintPayment_frame:
  assumes "mintPayment svc now toPrepay force outGate routeId i consumed p = Some (p', r)"
  shows "mintFrame now p p'"
proof (cases "PaidPackets p - consumed \<le>s i64_quo toPrepay 2 \<or> force")
  case False
  with assms have "p' = p" by (auto simp: mintPayment_def Let_def)
  then show ?thesis by (simp add: mintFrame_def)
next
  case True
  let ?cap = "sint toPrepay * uint (PricePerPacket p) * ChannelCapacityForNumPayments"
  show ?thesis
  proof (cases "case CurrentChannel p of None \<Rightarrow> True | Some ch \<Rightarrow> SafeDeadline ch < now")
    case False
    then obtain ch where ch: "CurrentChannel p = Some ch" "\<not> SafeDeadline ch < now"
      by (auto split: option.splits)
    with assms True have "p' = p\<lparr>CurrentChannel := Some ch\<rparr>"
      by (auto simp: mintPayment_def Let_def split: option.splits if_splits)
    with ch show ?thesis by (simp add: mintFrame_def)
  next
    case expired: True
    then have opened: "(case CurrentChannel p of
                  Some ch \<Rightarrow>
                    if SafeDeadline ch < now
                    then openVirtualChannel svc now p ?cap
                    else Some (p, Inr ch)
                | None \<Rightarrow> openVirtualChannel svc now p ?cap) = openVirtualChannel svc now p ?cap"
      by (auto split: option.splits)
    from assms True obtain p1 r1 where o: "openVirtualChannel svc now p ?cap = Some (p1, r1)"
      unfolding mintPayment_def Let_def opened
      by (cases "openVirtualChannel svc now p ?cap") auto
    note fr = openVirtualChannel_frame [OF o]
    show ?thesis
    proof (cases r1)
      case (Inl e)
      with assms True o have "p' = p1\<lparr>CurrentChannel := None\<rparr>"
        unfolding mintPayment_def Let_def opened by auto
      with fr expired show ?thesis by (simp add: mintFrame_def)
    next
      case (Inr ch)
      with assms True o have "p' = p1\<lparr>CurrentChannel := Some ch\<rparr>"
        unfolding mintPayment_def Let_def opened
        by (auto split: option.splits if_splits)
      with fr expired Inr show ?thesis by (simp add: mintFrame_def)
    qed
  qed
qed

lemma payHop_kept:
  assumes "payHop svc now psr toPrepay force outGate routeId i consumed p = Some (p', r)"
  shows "payerKept psr now p p'"
proof -
  obtain p1 ins skip where rd: "resendOrDiscard now psr p = (p1, ins, skip)"
    by (cases "resendOrDiscard now psr p") auto
  note k = resendOrDiscard_kept [OF rd]
  show ?thesis
  proof (cases skip)
    case True
    with assms rd have "p' = p1" by (simp add: payHop_def)
    with k show ?thesis by simp
  next
    case False
    with assms rd obtain r2 where
      m: "mintPayment svc now toPrepay force outGate routeId i consumed p1 = Some (p', r2)"
      by (auto simp: payHop_def split: option.splits sum.splits prod.splits)
    from mintPayment_frame [OF m] k show ?thesis
      by (auto simp: mintFrame_def payerKept_def)
  qed
qed


lemma hopPayments_kept:
  assumes "hopPayments svc now t w f routeId i po = Some (po', r)"
  shows "sectionKept (controlPaidSeqnoReceived t) now
           \<lparr>Keys = k, PaymentInfo = po\<rparr> \<lparr>Keys = k, PaymentInfo = po'\<rparr>"
proof (cases po)
  case None
  with assms show ?thesis by (simp add: hopPayments_def sectionKept_def)
next
  case (Some p)
  show ?thesis
  proof (cases "w \<and> PricePerPacket p > 0")
    case False
    with assms Some have "po' = Some p" by (auto simp: hopPayments_def)
    with Some show ?thesis by (simp add: sectionKept_def payerKept_refl)
  next
    case True
    with assms Some obtain p' where
      ph: "payHop (svc i) now (controlPaidSeqnoReceived t) (packetsToPrepay t) f
             (Suc i = length (chainTo t)) routeId i
             (hopConsumed (packetsConsumedOut t) (packetsConsumedIn t) (length (chainTo t)) i) p
           = Some (p', r)" and po': "po' = Some p'"
      by (auto simp: hopPayments_def split: option.splits)
    from payHop_kept [OF ph] Some po' show ?thesis by (simp add: sectionKept_def)
  qed
qed

lemma controlHop_kept:
  assumes "controlHop c svc now t w f i a = Some (stop, a')" and "i < length (as_nodes a)"
  shows "length (as_nodes a') = length (as_nodes a)
     \<and> (\<forall>j < length (as_nodes a). j \<noteq> i \<longrightarrow> as_nodes a' ! j = as_nodes a ! j)
     \<and> sectionKept (controlPaidSeqnoReceived t) now (as_nodes a ! i) (as_nodes a' ! i)"
proof (cases "Suc i = length (as_nodes a)")
  case True
  with assms(1) have "as_nodes a' = as_nodes a"
    by (auto simp: controlHop_def Let_def split: option.splits)
  then show ?thesis by (simp add: sectionKept_refl)
next
  case False
  show ?thesis
  proof (cases "leUint32 (SectionPubKey (Keys (as_nodes a ! (i + 1))))")
    case None
    with assms(1) False have "as_nodes a' = as_nodes a"
      by (auto simp: controlHop_def Let_def)
    then show ?thesis by (simp add: sectionKept_refl)
  next
    case (Some routeId)
    let ?n = "as_nodes a ! i"
    from assms(1) False Some obtain po r where
      hp: "hopPayments svc now t w f routeId i (PaymentInfo ?n) = Some (po, r)"
      by (cases "hopPayments svc now t w f routeId i (PaymentInfo ?n)")
         (auto simp: controlHop_def Let_def)
    with assms(1) False Some have n': "as_nodes a' = (as_nodes a)[i := ?n\<lparr>PaymentInfo := po\<rparr>]"
      by (auto simp: controlHop_def Let_def split: sum.splits option.splits prod.splits)
    from hopPayments_kept [OF hp, of "Keys ?n"]
    have "sectionKept (controlPaidSeqnoReceived t) now ?n (?n\<lparr>PaymentInfo := po\<rparr>)"
      by (auto simp: sectionKept_def split: option.splits)
    with n' assms(2) show ?thesis by simp
  qed
qed

lemma assembleControl_kept:
  "assembleControl c svc now t w f k a = Some (stop, a') \<Longrightarrow> k \<le> length (as_nodes a) \<Longrightarrow>
   nodesKept (controlPaidSeqnoReceived t) now k (as_nodes a) (as_nodes a')"
proof (induction k arbitrary: a)
  case 0
  then show ?case by (simp add: nodesKept_def sectionKept_refl)
next
  case (Suc i)
  from Suc.prems obtain s1 a1 where h: "controlHop c svc now t w f i a = Some (s1, a1)"
    by (cases "controlHop c svc now t w f i a") auto
  from Suc.prems(2) have i: "i < length (as_nodes a)" by simp
  note ck = controlHop_kept [OF h i]
  show ?case
  proof (cases s1)
    case (Some st)
    with Suc.prems(1) h have "a' = a1" by simp
    with ck show ?thesis
      by (auto simp: nodesKept_def sectionKept_refl)
  next
    case None
    with Suc.prems(1) h have r: "assembleControl c svc now t w f i a1 = Some (stop, a')" by simp
    from ck i have "i \<le> length (as_nodes a1)" by simp
    from Suc.IH [OF r this] have nk: "nodesKept (controlPaidSeqnoReceived t) now i (as_nodes a1) (as_nodes a')" .
    show ?thesis
      unfolding nodesKept_def
    proof (intro conjI allI impI)
      show "length (as_nodes a') = length (as_nodes a)" using nk ck by (simp add: nodesKept_def)
    next
      fix j assume j: "j < length (as_nodes a)" and "Suc i \<le> j"
      then have "as_nodes a' ! j = as_nodes a1 ! j" using nk ck by (simp add: nodesKept_def)
      moreover have "as_nodes a1 ! j = as_nodes a ! j" using ck j \<open>Suc i \<le> j\<close> by simp
      ultimately show "as_nodes a' ! j = as_nodes a ! j" by simp
    next
      fix j assume j: "j < length (as_nodes a)"
      show "sectionKept (controlPaidSeqnoReceived t) now (as_nodes a ! j) (as_nodes a' ! j)"
      proof (cases "j = i")
        case True
        have "as_nodes a' ! i = as_nodes a1 ! i" using nk ck i by (simp add: nodesKept_def)
        with ck True show ?thesis by simp
      next
        case False
        then have "as_nodes a1 ! j = as_nodes a ! j" using ck j by simp
        moreover have "sectionKept (controlPaidSeqnoReceived t) now (as_nodes a1 ! j) (as_nodes a' ! j)"
          using nk ck j by (simp add: nodesKept_def)
        ultimately show ?thesis by simp
      qed
    qed
  qed
qed

lemma sample_mint':
  "mintPayment sampleService 1000 200000 False True routeId 0 42 discarded
     = Some (afterOpening, Inr ([PaymentInstr mintedInstruction], Some sampleMutation))"
  using sample_mint [of routeId]
  by (simp add: afterOpening_def freshChannel_def sampleMutation_def)

lemma sample_hop_expired:
  assumes "controlPaidSeqnoReceived t = 5" "packetsToPrepay t = 200000"
    "length (chainTo t) = Suc 0" "packetsConsumedOut t = 41" "packetsConsumedIn t = 42"
  shows "hopPayments (\<lambda>i. sampleService) 1000 t True False routeId 0 (Some samplePayer)
     = Some (Some afterOpening, Inr ([PaymentInstr mintedInstruction], Some sampleMutation))"
proof -
  have rd: "resendOrDiscard 1000 5 samplePayer = (discarded, [], False)"
    by (simp add: resendOrDiscard_def samplePayer_def discarded_def)
  have pr: "PricePerPacket samplePayer > 0" by (simp add: samplePayer_def)
  have hc: "hopConsumed 41 42 (Suc 0) 0 = 42" by (simp add: hopConsumed_def word_sless_alt)
  show ?thesis
    using pr by (simp add: hopPayments_def assms hc payHop_no_resend [OF rd] sample_mint')
qed


lemma sample_route: "leUint32 [2, 2, 0, 0] = Some 514"
  by (simp add: leUint32_def)

lemma sample_failing_run:
  "prepareTunnelControlMessage failingFirst (\<lambda>i. sampleService) 1000 payingTunnel True False
     = Some (PrepareError EncryptLayerFailed,
             payingTunnel\<lparr>chainTo := [\<lparr>Keys = sampleKeys 1, PaymentInfo = Some afterOpening\<rparr>]\<rparr>)"
  by (simp add: prepareTunnelControlMessage_def controlHop_def storeNodes_def Let_def
      sample_hop_expired sample_route payingTunnel_def sampleTunnel_def sampleKeys_def
      failingFirst_def sampleCollaborators_def)


lemma sample_success_run:
  "prepareTunnelControlMessage sampleCollaborators (\<lambda>i. sampleService) 1000 payingTunnel True False
     = Some (Prepared \<lparr>em_SectionPubKey = [1, 2, 0, 0],
                       em_Instructions = toyContainer [RouteInstruction 0] @ toyContainer [],
                       em_Payload = []\<rparr> 0,
             payingTunnel\<lparr>chainTo :=
                 [\<lparr>Keys = sampleKeys 1,
                   PaymentInfo = Some (afterOpening\<lparr>PaidPackets := 54000, LatestPacketsPaid := 4000,
                      LatestInstruction := Some mintedInstruction,
                      LatestChannelDeadline := 3600000001000, LatestPaidOnSeqno := 6,
                      CurrentChannel := None\<rparr>)\<rparr>],
               controlSeqno := 6, packetsMinPaidIn := 54000, packetsMinPaidOut := 54000\<rparr>)"
proof -
  have ao: "CurrentChannel afterOpening = Some freshChannel" "PaidPackets afterOpening = 50000"
    by (simp_all add: afterOpening_def discarded_def)
  have mu: "mu_hop sampleMutation = 0" "payFor sampleMutation = 4000"
      "mu_pi sampleMutation = mintedInstruction" "stateAmount sampleMutation = 40000"
      "isFinal sampleMutation"
    by (simp_all add: sampleMutation_def)
  show ?thesis
    by (simp add: prepareTunnelControlMessage_def controlHop_def storeNodes_def Let_def
        sample_hop_expired sample_route payingTunnel_def sampleTunnel_def sampleKeys_def
        sampleCollaborators_def applyMutation_def ao mu MaxInt64_def word_sless_alt
        toyContainer_def freshChannel_def)
qed

text \<open>
  Claim C1, as amended. If \<open>prepareTunnelControlMessage\<close> returns an error (a failed layer
  encryption or any other), no queued mutation has run: \<open>controlSeqno\<close> and the two
  min-paid counters are as before, and for every section the keys are unchanged and the payer's
  \<open>LatestChannelDeadline\<close>, \<open>LatestPaidOnSeqno\<close> and \<open>LatestPacketsPaid\<close> are unchanged;
  \<open>PaidPackets\<close> and \<open>LatestInstruction\<close> are unchanged unless the hop had an unconfirmed
  latest payment past its channel deadline, which is then dropped with \<open>PaidPackets\<close> lowered
  by \<open>LatestPacketsPaid\<close>; \<open>CurrentChannel\<close> is unchanged unless it was absent or past its
  safe deadline, and then it is a newly opened channel with \<open>LastAmount = 0\<close> or none. The
  amount spent on a channel is never advanced. If the call succeeds, the loop ran through all
  sections without error, \<open>controlSeqno\<close> was incremented once, and the sections of the
  tunnel are those the loop left with all queued mutations applied, in order, afterwards.
\<close>

theorem prepareTunnelControlMessage_mutations:
  assumes run: "prepareTunnelControlMessage c svc now t withPayments forcePayments = Some (res, t')"
  shows "(\<forall>e. res = PrepareError e \<longrightarrow>
            controlSeqno t' = controlSeqno t
            \<and> packetsMinPaidIn t' = packetsMinPaidIn t
            \<and> packetsMinPaidOut t' = packetsMinPaidOut t
            \<and> length (chainTo t') = length (chainTo t)
            \<and> length (chainFrom t') = length (chainFrom t)
            \<and> (\<forall>j < length (chainTo t @ chainFrom t).
                  sectionKept (controlPaidSeqnoReceived t) now
                    ((chainTo t @ chainFrom t) ! j) ((chainTo t' @ chainFrom t') ! j)))
    \<and> (\<forall>m d. res = Prepared m d \<longrightarrow>
          (\<exists>a. assembleControl c svc now t withPayments forcePayments
                  (length (chainTo t @ chainFrom t))
                  \<lparr>as_msg = \<lparr>em_SectionPubKey = [], em_Instructions = [], em_Payload = []\<rparr>,
                   as_nodes = chainTo t @ chainFrom t, as_mutations = []\<rparr> = Some (None, a)
               \<and> m = as_msg a
               \<and> controlSeqno t' = controlSeqno t + 1
               \<and> applyMutations (controlSeqno t + 1) (as_mutations a) (as_nodes a)
                    = (True, chainTo t' @ chainFrom t')))"
proof -
  let ?nodes = "chainTo t @ chainFrom t"
  let ?start = "\<lparr>as_msg = \<lparr>em_SectionPubKey = [], em_Instructions = [], em_Payload = []\<rparr>,
                   as_nodes = ?nodes, as_mutations = []\<rparr>"
  from run obtain stop a where
    ac: "assembleControl c svc now t withPayments forcePayments (length ?nodes) ?start
           = Some (stop, a)"
    by (cases "assembleControl c svc now t withPayments forcePayments (length ?nodes) ?start")
       (auto simp: prepareTunnelControlMessage_def Let_def)
  from assembleControl_kept [OF ac]
  have nk: "nodesKept (controlPaidSeqnoReceived t) now (length ?nodes) ?nodes (as_nodes a)"
    by simp
  then have len: "length (as_nodes a) = length ?nodes" by (simp add: nodesKept_def)
  have stored: "chainTo (storeNodes u (as_nodes a)) @ chainFrom (storeNodes u (as_nodes a))
      = as_nodes a" for u
    by (simp add: storeNodes_def)
  show ?thesis
  proof (cases stop)
    case (Some st)
    show ?thesis
    proof (cases st)
      case (Failed e)
      with Some run ac have r: "res = PrepareError e" "t' = storeNodes t (as_nodes a)"
        by (simp_all add: prepareTunnelControlMessage_def Let_def)
      have "chainTo t' @ chainFrom t' = as_nodes a" using r stored by simp
      moreover have "length (chainTo t') = length (chainTo t)"
        "length (chainFrom t') = length (chainFrom t)"
        using r len by (simp_all add: storeNodes_def)
      moreover have "controlSeqno t' = controlSeqno t" "packetsMinPaidIn t' = packetsMinPaidIn t"
        "packetsMinPaidOut t' = packetsMinPaidOut t"
        using r by (simp_all add: storeNodes_def)
      ultimately show ?thesis using r nk by (simp add: nodesKept_def)
    next
      case (Panicked x)
      with Some run ac have "res = PreparePanic x"
        by (simp add: prepareTunnelControlMessage_def Let_def)
      then show ?thesis by simp
    qed
  next
    case None
    obtain ok nodes' where am:
      "applyMutations (controlSeqno t + 1) (as_mutations a) (as_nodes a) = (ok, nodes')"
      by (cases "applyMutations (controlSeqno t + 1) (as_mutations a) (as_nodes a)") auto
    show ?thesis
    proof (cases ok)
      case False
      with None run ac am have "\<exists>x. res = PreparePanic x"
        by (auto simp: prepareTunnelControlMessage_def Let_def)
      then show ?thesis by auto
    next
      case True
      with None run ac am obtain d mi mo where
        r: "res = Prepared (as_msg a) d"
           "t' = (storeNodes (t\<lparr>controlSeqno := controlSeqno t + 1\<rparr>) nodes')
                   \<lparr>packetsMinPaidIn := mi, packetsMinPaidOut := mo\<rparr>"
        by (auto simp: prepareTunnelControlMessage_def Let_def split: prod.splits)
      have "chainTo t' @ chainFrom t' = nodes'" "controlSeqno t' = controlSeqno t + 1"
        using r by (simp_all add: storeNodes_def)
      with r ac None am True show ?thesis by simp
    qed
  qed
qed

text \<open>
  Claim C1, as stated, at a failing run. The first section's encryption fails; the call
  returns the error; yet the paying hop's \<open>PaidPackets\<close> went from 150000 to 50000, its
  \<open>LatestInstruction\<close> was cleared, and its current channel (7000 spent) was replaced by a
  new one (0 spent).
\<close>

theorem prepareTunnelControlMessage_not_atomic:
  "prepareTunnelControlMessage failingFirst (\<lambda>i. sampleService) 1000 payingTunnel True False
     = Some (PrepareError EncryptLayerFailed,
             payingTunnel\<lparr>chainTo := [\<lparr>Keys = sampleKeys 1, PaymentInfo = Some afterOpening\<rparr>]\<rparr>)
   \<and> chainTo payingTunnel = [\<lparr>Keys = sampleKeys 1, PaymentInfo = Some samplePayer\<rparr>]
   \<and> PaidPackets samplePayer = 150000 \<and> PaidPackets afterOpening = 50000
   \<and> LatestInstruction samplePayer = Some sampleInstruction
   \<and> LatestInstruction afterOpening = None
   \<and> map_option LastAmount (CurrentChannel samplePayer) = Some 7000
   \<and> map_option LastAmount (CurrentChannel afterOpening) = Some 0"
  by (simp add: sample_failing_run)
     (simp add: payingTunnel_def samplePayer_def afterOpening_def discarded_def freshChannel_def)

theorem prepareTunnelControlMessage_mutations_witness:
  "prepareTunnelControlMessage failingFirst (\<lambda>i. sampleService) 1000 payingTunnel True False
     = Some (PrepareError EncryptLayerFailed,
             payingTunnel\<lparr>chainTo := [\<lparr>Keys = sampleKeys 1, PaymentInfo = Some afterOpening\<rparr>]\<rparr>)
   \<and> sectionKept 5 1000 \<lparr>Keys = sampleKeys 1, PaymentInfo = Some samplePayer\<rparr>
         \<lparr>Keys = sampleKeys 1, PaymentInfo = Some afterOpening\<rparr>
   \<and> (\<exists>m d t'. prepareTunnelControlMessage sampleCollaborators (\<lambda>i. sampleService) 1000
                    payingTunnel True False = Some (Prepared m d, t')
                \<and> controlSeqno t' = 6
                \<and> map PaymentInfo (chainTo t')
                    = [Some (afterOpening\<lparr>PaidPackets := 54000, LatestPacketsPaid := 4000,
                         LatestInstruction := Some mintedInstruction,
                         LatestChannelDeadline := 3600000001000, LatestPaidOnSeqno := 6,
                         CurrentChannel := None\<rparr>)])"
proof -
  have pt: "controlPaidSeqnoReceived payingTunnel = 5"
      "chainTo payingTunnel = [\<lparr>Keys = sampleKeys 1, PaymentInfo = Some samplePayer\<rparr>]"
      "length (chainFrom payingTunnel) = 1" "controlSeqno payingTunnel = 5"
    by (simp_all add: payingTunnel_def sampleTunnel_def)
  let ?t1 = "payingTunnel\<lparr>chainTo := [\<lparr>Keys = sampleKeys 1, PaymentInfo = Some afterOpening\<rparr>]\<rparr>"
  from prepareTunnelControlMessage_mutations [OF sample_failing_run]
  have a: "\<forall>j < length (chainTo payingTunnel @ chainFrom payingTunnel).
          sectionKept (controlPaidSeqnoReceived payingTunnel) 1000
            ((chainTo payingTunnel @ chainFrom payingTunnel) ! j)
            ((chainTo ?t1 @ chainFrom ?t1) ! j)"
    by blast
  have "0 < length (chainTo payingTunnel @ chainFrom payingTunnel)" by (simp add: pt)
  with a have "sectionKept (controlPaidSeqnoReceived payingTunnel) 1000
            ((chainTo payingTunnel @ chainFrom payingTunnel) ! 0)
            ((chainTo ?t1 @ chainFrom ?t1) ! 0)"
    by blast
  then have k: "sectionKept 5 1000 \<lparr>Keys = sampleKeys 1, PaymentInfo = Some samplePayer\<rparr>
         \<lparr>Keys = sampleKeys 1, PaymentInfo = Some afterOpening\<rparr>"
    by (simp add: pt)
  from prepareTunnelControlMessage_mutations [OF sample_success_run]
  have "controlSeqno (payingTunnel\<lparr>chainTo :=
                 [\<lparr>Keys = sampleKeys 1,
                   PaymentInfo = Some (afterOpening\<lparr>PaidPackets := 54000, LatestPacketsPaid := 4000,
                      LatestInstruction := Some mintedInstruction,
                      LatestChannelDeadline := 3600000001000, LatestPaidOnSeqno := 6,
                      CurrentChannel := None\<rparr>)\<rparr>],
               controlSeqno := 6, packetsMinPaidIn := 54000, packetsMinPaidOut := 54000\<rparr>)
        = controlSeqno payingTunnel + 1"
    by auto
  with k sample_failing_run sample_success_run show ?thesis by simp
qed

section \<open>Properties of the control loop\<close>












end
